theory Spec2Isabelle
  imports Complex_Main
begin

section \<open>Byte strings and text\<close>

text \<open>
  A Python \<open>bytes\<close> value is a list of 8-bit characters. A Python \<open>str\<close> is
  modelled on the code points below 256, one \<open>char\<close> per code point.
\<close>

type_synonym bytes = string

definition ascii_uppercase :: string where
  "ascii_uppercase = ''ABCDEFGHIJKLMNOPQRSTUVWXYZ''"

definition ascii_lowercase :: string where
  "ascii_lowercase = ''abcdefghijklmnopqrstuvwxyz''"

definition digits :: string where
  "digits = ''0123456789''"

definition latin1_uppercase :: string where
  "latin1_uppercase =
     [CHR 0xC0, CHR 0xC1, CHR 0xC2, CHR 0xC3, CHR 0xC4, CHR 0xC5, CHR 0xC6, CHR 0xC7,
      CHR 0xC8, CHR 0xC9, CHR 0xCA, CHR 0xCB, CHR 0xCC, CHR 0xCD, CHR 0xCE, CHR 0xCF,
      CHR 0xD0, CHR 0xD1, CHR 0xD2, CHR 0xD3, CHR 0xD4, CHR 0xD5, CHR 0xD6, CHR 0xD8,
      CHR 0xD9, CHR 0xDA, CHR 0xDB, CHR 0xDC, CHR 0xDD, CHR 0xDE]"

definition latin1_lowercase :: string where
  "latin1_lowercase =
     [CHR 0xE0, CHR 0xE1, CHR 0xE2, CHR 0xE3, CHR 0xE4, CHR 0xE5, CHR 0xE6, CHR 0xE7,
      CHR 0xE8, CHR 0xE9, CHR 0xEA, CHR 0xEB, CHR 0xEC, CHR 0xED, CHR 0xEE, CHR 0xEF,
      CHR 0xF0, CHR 0xF1, CHR 0xF2, CHR 0xF3, CHR 0xF4, CHR 0xF5, CHR 0xF6, CHR 0xF8,
      CHR 0xF9, CHR 0xFA, CHR 0xFB, CHR 0xFC, CHR 0xFD, CHR 0xFE]"

definition latin1_other_alnum :: string where
  \<comment> \<open>the remaining code points in 128..255 for which \<open>str.isalnum()\<close> holds\<close>
  "latin1_other_alnum =
     [CHR 0xAA, CHR 0xB2, CHR 0xB3, CHR 0xB5, CHR 0xB9, CHR 0xBA, CHR 0xBC, CHR 0xBD,
      CHR 0xBE, CHR 0xDF, CHR 0xFF]"

definition bytes_lower_char :: "char \<Rightarrow> char" where
  \<comment> \<open>\<open>bytes.lower()\<close>: only the ASCII letters A-Z change.\<close>
  "bytes_lower_char c =
     (case map_of (zip ascii_uppercase ascii_lowercase) c of None \<Rightarrow> c | Some d \<Rightarrow> d)"

definition bytes_lower :: "bytes \<Rightarrow> bytes" where
  "bytes_lower s = map bytes_lower_char s"

definition str_lower_char :: "char \<Rightarrow> char" where
  \<comment> \<open>\<open>str.lower()\<close> on one code point below 256\<close>
  "str_lower_char c =
     (case map_of (zip (ascii_uppercase @ latin1_uppercase)
                       (ascii_lowercase @ latin1_lowercase)) c of
        None \<Rightarrow> c | Some d \<Rightarrow> d)"

definition str_lower :: "string \<Rightarrow> string" where
  "str_lower s = map str_lower_char s"

definition isalnum :: "char \<Rightarrow> bool" where
  \<comment> \<open>\<open>c.isalnum()\<close> for a one-character \<open>str\<close>\<close>
  "isalnum c \<longleftrightarrow>
     c \<in> set (ascii_uppercase @ ascii_lowercase @ digits @
              latin1_uppercase @ latin1_lowercase @ latin1_other_alnum)"

fun find_sub :: "'a list \<Rightarrow> 'a list \<Rightarrow> nat option" where
  "find_sub sub [] = (if sub = [] then Some 0 else None)"
| "find_sub sub (c # cs) =
     (if take (length sub) (c # cs) = sub then Some 0
      else map_option Suc (find_sub sub cs))"

definition find_from :: "'a list \<Rightarrow> 'a list \<Rightarrow> nat \<Rightarrow> nat option" where
  \<comment> \<open>\<open>s.find(sub, start)\<close> for \<open>0 \<le> start\<close>; \<open>None\<close> stands for -1.\<close>
  "find_from s sub start =
     (if length s < start then None
      else map_option (\<lambda>i. i + start) (find_sub sub (drop start s)))"

definition contains :: "'a list \<Rightarrow> 'a list \<Rightarrow> bool" where
  \<comment> \<open>\<open>sub in s\<close>\<close>
  "contains sub s = (find_sub sub s \<noteq> None)"

definition slice :: "'a list \<Rightarrow> nat \<Rightarrow> nat \<Rightarrow> 'a list" where
  \<comment> \<open>\<open>s[lo:hi]\<close> for non-negative bounds\<close>
  "slice s lo hi = take (hi - lo) (drop lo s)"

section \<open>Errors\<close>

datatype py_error =
    KeyError | TypeError | ValueError | ValidationError
  | LZMAError | BinasciiError | UnicodeDecodeError | IndexError | AttributeError
  | PlaywrightError | DNSError | RuntimeError

definition bind_err :: "py_error + 'a \<Rightarrow> ('a \<Rightarrow> py_error + 'b) \<Rightarrow> py_error + 'b" where
  "bind_err m f = (case m of Inl e \<Rightarrow> Inl e | Inr x \<Rightarrow> f x)"

section \<open>The web resource and its file encoding\<close>

text \<open>
  A \<open>datetime\<close> is the instant in microseconds since the earliest representable
  one, together with the UTC offset of its time zone (\<open>None\<close> for a naive value).
\<close>

record datetime =
  dt_micros :: nat
  dt_utcoffset :: "int option"

datatype json =
    JNull | JBool bool | JInt int | JStr string | JArr "json list"
  | JObj "(string \<times> json) list"

record WebResource =
  wr_url :: string
  wr_ip :: string
  wr_status :: int
  wr_hash :: string
  wr_size :: int
  wr_content :: bytes
  wr_content_type :: string
  wr_headers :: "(string \<times> json) list"
  wr_date_retrieved :: datetime
  wr_date_modified :: "datetime option"

record parse_result =
  pr_scheme :: string
  pr_netloc :: string
  pr_path :: string
  pr_params :: string
  pr_query :: string
  pr_fragment :: string

text \<open>
  The functions of the standard library and of third-party packages that the code
  calls are parameters of the model. A decoder returns \<open>None\<close> where the library
  raises. A file holds a JSON document: writing a document as text and parsing the
  text back is not modelled.
\<close>

record lib =
  blake2b_hexdigest :: "bytes \<Rightarrow> string"
  lzma_compress :: "bytes \<Rightarrow> bytes"
  lzma_decompress :: "bytes \<Rightarrow> bytes option"
  b64encode :: "bytes \<Rightarrow> string"
  b64decode :: "string \<Rightarrow> bytes option"
  isoformat :: "datetime \<Rightarrow> string"
  fromisoformat :: "string \<Rightarrow> datetime option"
  urlparse :: "string \<Rightarrow> parse_result option"

definition iso_roundtrip :: "lib \<Rightarrow> datetime \<Rightarrow> bool" where
  "iso_roundtrip L d \<longleftrightarrow>
     fromisoformat L (isoformat L d) = Some d \<and> isoformat L d \<noteq> []"

definition codec_roundtrip :: "lib \<Rightarrow> WebResource \<Rightarrow> bool" where
  \<comment> \<open>the contract of the codec pairs of the library, at the content and the dates of
      one resource: decoding an encoding gives the value back\<close>
  "codec_roundtrip L r \<longleftrightarrow>
     b64decode L (b64encode L (lzma_compress L (wr_content r)))
       = Some (lzma_compress L (wr_content r)) \<and>
     lzma_decompress L (lzma_compress L (wr_content r)) = Some (wr_content r) \<and>
     iso_roundtrip L (wr_date_retrieved r) \<and>
     (case wr_date_modified r of None \<Rightarrow> True | Some d \<Rightarrow> iso_roundtrip L d)"

definition utf8_encode :: "string \<Rightarrow> bytes" where
  \<comment> \<open>\<open>s.encode("utf-8")\<close> for code points below 256\<close>
  "utf8_encode s =
     concat (map (\<lambda>c. if (of_char c :: nat) < 128 then [c]
                       else [char_of (192 + (of_char c :: nat) div 64),
                             char_of (128 + (of_char c :: nat) mod 64)]) s)"

type_synonym fspath = "string list"

definition CACHE_PATH :: fspath where
  "CACHE_PATH = [''~'', ''.alea'', ''web-survey'', ''cache'']"

definition path_join :: "fspath \<Rightarrow> string \<Rightarrow> fspath" where
  \<comment> \<open>\<open>p / seg\<close> for a segment without a separator: an empty or \<open>.\<close> segment adds nothing\<close>
  "path_join p seg = (if seg = [] \<or> seg = ''.'' then p else p @ [seg])"

definition parent :: "fspath \<Rightarrow> fspath" where
  "parent p = butlast p"

definition opt_iso :: "lib \<Rightarrow> datetime option \<Rightarrow> json" where
  \<comment> \<open>\<open>d.isoformat() if d else None\<close>: a datetime is always truthy\<close>
  "opt_iso L d = (case d of None \<Rightarrow> JNull | Some t \<Rightarrow> JStr (isoformat L t))"

definition file_data :: "lib \<Rightarrow> WebResource \<Rightarrow> json" where
  "file_data L r =
     JObj [(''url'', JStr (wr_url r)),
           (''ip'', JStr (wr_ip r)),
           (''status'', JInt (wr_status r)),
           (''hash'', JStr (wr_hash r)),
           (''size'', JInt (wr_size r)),
           (''content'', JStr (b64encode L (lzma_compress L (wr_content r)))),
           (''content_type'', JStr (wr_content_type r)),
           (''headers'', JObj (wr_headers r)),
           (''date_retrieved'', JStr (isoformat L (wr_date_retrieved r))),
           (''date_modified'', opt_iso L (wr_date_modified r))]"

definition save :: "lib \<Rightarrow> WebResource \<Rightarrow> fspath \<Rightarrow> (fspath \<rightharpoonup> json) \<Rightarrow> (fspath \<rightharpoonup> json)" where
  "save L r path files = files(path \<mapsto> file_data L r)"

definition get_key :: "(string \<times> json) list \<Rightarrow> string \<Rightarrow> py_error + json" where
  "get_key kv k = (case map_of kv k of None \<Rightarrow> Inl KeyError | Some v \<Rightarrow> Inr v)"

text \<open>
  Field validation: a field of the wrong JSON type is a validation error (the lax
  coercions of the validation library on ill-typed fields are not modelled).
\<close>

definition as_str :: "json \<Rightarrow> py_error + string" where
  "as_str v = (case v of JStr s \<Rightarrow> Inr s | _ \<Rightarrow> Inl ValidationError)"

definition as_int :: "json \<Rightarrow> py_error + int" where
  "as_int v = (case v of JInt i \<Rightarrow> Inr i | _ \<Rightarrow> Inl ValidationError)"

definition as_dict :: "json \<Rightarrow> py_error + (string \<times> json) list" where
  "as_dict v = (case v of JObj kv \<Rightarrow> Inr kv | _ \<Rightarrow> Inl ValidationError)"

definition decode_content :: "lib \<Rightarrow> json \<Rightarrow> py_error + bytes" where
  \<comment> \<open>\<open>lzma.decompress(base64.b64decode(v))\<close>\<close>
  "decode_content L v =
     (case v of
        JStr s \<Rightarrow>
          (case b64decode L s of
             None \<Rightarrow> Inl BinasciiError
           | Some z \<Rightarrow>
               (case lzma_decompress L z of None \<Rightarrow> Inl LZMAError | Some b \<Rightarrow> Inr b))
      | _ \<Rightarrow> Inl TypeError)"

definition parse_iso :: "lib \<Rightarrow> json \<Rightarrow> py_error + datetime" where
  \<comment> \<open>\<open>datetime.datetime.fromisoformat(v)\<close>\<close>
  "parse_iso L v =
     (case v of
        JStr s \<Rightarrow> (case fromisoformat L s of None \<Rightarrow> Inl ValueError | Some d \<Rightarrow> Inr d)
      | _ \<Rightarrow> Inl TypeError)"

definition truthy :: "json \<Rightarrow> bool" where
  "truthy v =
     (case v of JNull \<Rightarrow> False | JBool b \<Rightarrow> b | JInt i \<Rightarrow> i \<noteq> 0 | JStr s \<Rightarrow> s \<noteq> []
      | JArr xs \<Rightarrow> xs \<noteq> [] | JObj kv \<Rightarrow> kv \<noteq> [])"

definition parse_opt_iso :: "lib \<Rightarrow> json \<Rightarrow> py_error + datetime option" where
  \<comment> \<open>\<open>fromisoformat(v) if v else None\<close>\<close>
  "parse_opt_iso L v =
     (if truthy v then bind_err (parse_iso L v) (\<lambda>d. Inr (Some d)) else Inr None)"

definition from_json :: "lib \<Rightarrow> (string \<times> json) list \<Rightarrow> py_error + WebResource" where
  "from_json L kv =
     bind_err (bind_err (get_key kv ''content'') (decode_content L)) (\<lambda>content.
     bind_err (get_key kv ''url'') (\<lambda>url.
     bind_err (get_key kv ''ip'') (\<lambda>ip.
     bind_err (get_key kv ''status'') (\<lambda>status.
     bind_err (get_key kv ''hash'') (\<lambda>hash.
     bind_err (get_key kv ''size'') (\<lambda>size.
     bind_err (get_key kv ''content_type'') (\<lambda>content_type.
     bind_err (get_key kv ''headers'') (\<lambda>headers.
     bind_err (bind_err (get_key kv ''date_retrieved'') (parse_iso L)) (\<lambda>date_retrieved.
     bind_err (bind_err (get_key kv ''date_modified'') (parse_opt_iso L)) (\<lambda>date_modified.
     bind_err (as_str url) (\<lambda>url'.
     bind_err (as_str ip) (\<lambda>ip'.
     bind_err (as_int status) (\<lambda>status'.
     bind_err (as_str hash) (\<lambda>hash'.
     bind_err (as_int size) (\<lambda>size'.
     bind_err (as_str content_type) (\<lambda>content_type'.
     bind_err (as_dict headers) (\<lambda>headers'.
       Inr \<lparr>wr_url = url', wr_ip = ip', wr_status = status', wr_hash = hash',
            wr_size = size', wr_content = content, wr_content_type = content_type',
            wr_headers = headers', wr_date_retrieved = date_retrieved,
            wr_date_modified = date_modified\<rparr>)))))))))))))))))"

definition from_file :: "lib \<Rightarrow> json \<Rightarrow> py_error + WebResource" where
  \<comment> \<open>the argument is the document held by the file at the path\<close>
  "from_file L doc = (case doc of JObj kv \<Rightarrow> from_json L kv | _ \<Rightarrow> Inl TypeError)"

definition get_cache_path :: "lib \<Rightarrow> string \<Rightarrow> fspath option \<Rightarrow> py_error + fspath" where
  "get_cache_path L url cache_path =
     (let cache_path = (case cache_path of None \<Rightarrow> CACHE_PATH | Some p \<Rightarrow> p) in
      case urlparse L url of
        None \<Rightarrow> Inl ValueError
      | Some parsed_url \<Rightarrow>
          (let domain = pr_netloc parsed_url;
               path = pr_path parsed_url;
               path_hash = blake2b_hexdigest L (utf8_encode path)
           in Inr (path_join (path_join cache_path domain) (path_hash @ ''.json''))))"

definition save_to_cache ::
    "lib \<Rightarrow> WebResource \<Rightarrow> fspath option \<Rightarrow> (fspath \<rightharpoonup> json)
      \<Rightarrow> py_error + fspath \<times> (fspath \<rightharpoonup> json)" where
  \<comment> \<open>the path written and the files after the write\<close>
  "save_to_cache L r cache_path files =
     bind_err (get_cache_path L (wr_url r) cache_path) (\<lambda>cache_file.
       Inr (cache_file, save L r cache_file files))"

definition load_from_cache ::
    "lib \<Rightarrow> string \<Rightarrow> fspath option \<Rightarrow> (fspath \<rightharpoonup> json) \<Rightarrow> py_error + WebResource option" where
  "load_from_cache L url cache_path files =
     bind_err (get_cache_path L url cache_path) (\<lambda>cache_file.
       case files cache_file of
         None \<Rightarrow> Inr None
       | Some doc \<Rightarrow> bind_err (from_file L doc) (\<lambda>r. Inr (Some r)))"

section \<open>The render-fallback test\<close>

definition requires_playwright :: "bytes \<Rightarrow> bool" where
  "requires_playwright content =
     (let lower_content = bytes_lower content in
      case find_from lower_content ''<noscript>'' 0 of
        None \<Rightarrow> False
      | Some p0 \<Rightarrow>
          (let p1 = (case find_from lower_content ''</noscript>'' p0 of
                       None \<Rightarrow> min (p0 + 256) (length lower_content)
                     | Some p \<Rightarrow> p)
           in contains ''javascript'' (slice lower_content p0 p1)))"

section \<open>The configuration\<close>

text \<open>
  The configuration object \<open>CONFIG\<close> is an instance of the dataclass
  \<open>WebSurveyConfig\<close>, built from the configuration file by passing its keys to the
  constructor, which accepts the declared fields only. So the object has the thirteen
  fields below and no other attribute: reading a declared field by name gives its
  value, reading any other name raises \<open>AttributeError\<close>.
\<close>

record WebSurveyConfig =
  s3_bucket :: string
  domain_path :: string
  user_agent :: string
  dns_resolve_timeout :: real
  http_pool_size :: int
  http_keep_alive :: int
  http_network_timeout :: int
  http_connect_timeout :: int
  http_read_timeout :: int
  http_write_timeout :: int
  playwright_timeout :: int
  path_list :: "string list"
  domain_weights :: "(string \<times> real) list"

datatype attr_value =
    AStr string | AInt int | AFloat real | AStrList "string list"
  | AWeights "(string \<times> real) list"

definition config_attr :: "WebSurveyConfig \<Rightarrow> string \<Rightarrow> py_error + attr_value" where
  \<comment> \<open>the attribute access \<open>CONFIG.name\<close>\<close>
  "config_attr C name =
     (case map_of
        [(''s3_bucket'', AStr (s3_bucket C)),
         (''domain_path'', AStr (domain_path C)),
         (''user_agent'', AStr (user_agent C)),
         (''dns_resolve_timeout'', AFloat (dns_resolve_timeout C)),
         (''http_pool_size'', AInt (http_pool_size C)),
         (''http_keep_alive'', AInt (http_keep_alive C)),
         (''http_network_timeout'', AInt (http_network_timeout C)),
         (''http_connect_timeout'', AInt (http_connect_timeout C)),
         (''http_read_timeout'', AInt (http_read_timeout C)),
         (''http_write_timeout'', AInt (http_write_timeout C)),
         (''playwright_timeout'', AInt (playwright_timeout C)),
         (''path_list'', AStrList (path_list C)),
         (''domain_weights'', AWeights (domain_weights C))] name of
        None \<Rightarrow> Inl AttributeError
      | Some v \<Rightarrow> Inr v)"

definition number :: "attr_value \<Rightarrow> py_error + real" where
  "number v = (case v of AInt i \<Rightarrow> Inr (of_int i) | AFloat x \<Rightarrow> Inr x | _ \<Rightarrow> Inl TypeError)"

definition min_delay :: "attr_value \<Rightarrow> attr_value \<Rightarrow> py_error + real" where
  \<comment> \<open>\<open>min(a, b)\<close> as a number of seconds to sleep; a value that is no number raises in
      \<open>min\<close> or in \<open>asyncio.sleep\<close>\<close>
  "min_delay a b = bind_err (number a) (\<lambda>x. bind_err (number b) (\<lambda>y. Inr (min x y)))"

section \<open>The world outside the program\<close>

text \<open>
  The state that the program reads and changes: the files below the cache root, the
  log of the operations performed on the outside so far (the liveness probe of a
  domain, an HTTP GET, a render call, the write of a cache entry, the write of a
  completion index), a logical clock that advances at every call to the outside, and
  the log of politeness delays slept.
\<close>

datatype io_event =
    Probe string | HttpGet string | Render string
  | WroteEntry fspath | WroteIndex fspath

text \<open>
  \<open>check_host\<close> and \<open>fetch_resource\<close> are coroutine functions under
  \<open>functools.cache\<close>. What the decorator stores for an argument tuple is the coroutine
  object of the first call, and a later call with equal arguments gets that same object
  back. The world records the argument tuples whose coroutine has been awaited. An HTTP
  client is compared by identity: a client is the number of its creation, and the world
  holds the number of the next one.
\<close>

datatype coro_key =
    CheckHost string
  | FetchResource nat string "string option"

record world =
  fs :: "fspath \<rightharpoonup> json"
  io_log :: "io_event list"
  clock :: nat
  slept :: "real list"
  awaited :: "coro_key list"
  next_client :: nat

record response =
  status_code :: int
  resp_content :: bytes
  resp_headers :: "(string \<times> string) list"
  server_addr :: "string option"

text \<open>
  The outcome of a render call: \<open>LaunchFailed\<close> is a call that raises (the browser does
  not launch, or the coroutine that the decorator of \<open>fetch_content_playwright\<close> holds
  for this URL has been awaited before), \<open>PageFailed\<close> a failure while the page loads.
\<close>

datatype render_outcome = LaunchFailed | PageFailed | Rendered string

record robots =
  crawl_delay :: "int option"
  site_maps :: "string list option"

text \<open>
  The collaborators. Every answer of the outside may depend on the clock, so that
  asking twice need not give the same answer. \<open>robots_parse\<close> stands for decoding the
  body as UTF-8, parsing it with the robots.txt parser, and reading the crawl delay for
  the agent \<open>*\<close> and the sitemap list. Of the event loop, \<open>start_rank\<close> orders the
  fetch tasks of a domain by the turn in which each is started, and \<open>arrival_rank\<close> by
  the turn in which its HTTP response arrives.
\<close>

record env =
  http_get :: "nat \<Rightarrow> string \<Rightarrow> response option"
  playwright :: "nat \<Rightarrow> string \<Rightarrow> render_outcome"
  dateutil_parse :: "string \<Rightarrow> datetime option"
  utc_now :: "nat \<Rightarrow> datetime"
  host_probe :: "nat \<Rightarrow> string \<Rightarrow> (string \<times> string) option"
  robots_parse :: "bytes \<Rightarrow> py_error + robots"
  start_rank :: "string \<Rightarrow> nat"
  arrival_rank :: "string \<Rightarrow> nat"

definition net_call :: "io_event \<Rightarrow> world \<Rightarrow> world" where
  "net_call ev w = w\<lparr>io_log := io_log w @ [ev], clock := Suc (clock w)\<rparr>"

definition is_index_write :: "io_event \<Rightarrow> bool" where
  "is_index_write ev = (case ev of WroteIndex p \<Rightarrow> True | _ \<Rightarrow> False)"

definition tick :: "world \<Rightarrow> world" where
  "tick w = w\<lparr>clock := Suc (clock w)\<rparr>"

section \<open>Fetching one resource\<close>

definition fetch_content_playwright :: "env \<Rightarrow> string \<Rightarrow> world \<Rightarrow> (py_error + bytes) \<times> world" where
  \<comment> \<open>a failure of the page load gives empty content; a failure to launch propagates\<close>
  "fetch_content_playwright E url w =
     ((case playwright E (clock w) url of
         LaunchFailed \<Rightarrow> Inl PlaywrightError
       | PageFailed \<Rightarrow> Inr (utf8_encode [])
       | Rendered content \<Rightarrow> Inr (utf8_encode content)),
      net_call (Render url) w)"

definition scan_header ::
    "env \<Rightarrow> string \<times> datetime option \<Rightarrow> string \<times> string \<Rightarrow> string \<times> datetime option" where
  "scan_header E acc kv =
     (case acc of (content_type, last_modified) \<Rightarrow>
      case kv of (key, val) \<Rightarrow>
        if str_lower key = ''content-type'' then (val, last_modified)
        else if str_lower key = ''last-modified'' then
          (case dateutil_parse E val of
             None \<Rightarrow> (content_type, last_modified)
           | Some d \<Rightarrow> (content_type, Some d))
        else (content_type, last_modified))"

definition scan_headers :: "env \<Rightarrow> (string \<times> string) list \<Rightarrow> string \<times> datetime option" where
  "scan_headers E hs = foldl (scan_header E) (''text/plain'', None) hs"

definition fetch_network ::
    "lib \<Rightarrow> env \<Rightarrow> string \<Rightarrow> string option \<Rightarrow> world \<Rightarrow> (py_error + WebResource option) \<times> world" where
  \<comment> \<open>the \<open>try\<close> block of \<open>fetch_resource\<close>: every exception in it gives \<open>None\<close>\<close>
  "fetch_network L E url ip_address w =
     (let w1 = net_call (HttpGet url) w in
      case http_get E (clock w) url of
        None \<Rightarrow> (Inr None, w1)
      | Some response \<Rightarrow>
          (let response_ip =
                 (case server_addr response of
                    Some a \<Rightarrow> a
                  | None \<Rightarrow> (case ip_address of None \<Rightarrow> [] | Some a \<Rightarrow> a));
               hdr = scan_headers E (resp_headers response);
               content_type = fst hdr;
               last_modified = snd hdr;
               fetched =
                 (if requires_playwright (resp_content response)
                     \<and> status_code response \<in> {200, 301}
                  then fetch_content_playwright E url w1
                  else (Inr (resp_content response), w1));
               w2 = snd fetched
           in case fst fetched of
                Inl e \<Rightarrow> (Inr None, w2)
              | Inr content \<Rightarrow>
                  (let hash_value = blake2b_hexdigest L content;
                       web_resource =
                         \<lparr>wr_url = url, wr_ip = response_ip,
                          wr_status = status_code response, wr_hash = hash_value,
                          wr_size = int (length content), wr_content = content,
                          wr_content_type = content_type, wr_headers = [],
                          wr_date_retrieved = utc_now E (clock w2),
                          wr_date_modified = last_modified\<rparr>;
                       w3 = tick w2
                   in case save_to_cache L web_resource None (fs w3) of
                        Inl e \<Rightarrow> (Inr None, w3)
                      | Inr (cache_file, fs') \<Rightarrow>
                          (Inr (Some web_resource),
                           w3\<lparr>fs := fs', io_log := io_log w3 @ [WroteEntry cache_file]\<rparr>))))"

definition fetch_resource ::
    "lib \<Rightarrow> env \<Rightarrow> string \<Rightarrow> string option \<Rightarrow> world \<Rightarrow> (py_error + WebResource option) \<times> world" where
  \<comment> \<open>the body of the coroutine: what awaiting a new coroutine object runs\<close>
  "fetch_resource L E url ip_address w =
     (case load_from_cache L url None (fs w) of
        Inl e \<Rightarrow> (Inl e, w)
      | Inr (Some cached_resource) \<Rightarrow> (Inr (Some cached_resource), w)
      | Inr None \<Rightarrow> fetch_network L E url ip_address w)"

definition check_host :: "env \<Rightarrow> string \<Rightarrow> world \<Rightarrow> (string \<times> string) option \<times> world" where
  \<comment> \<open>the body of the coroutine: the scheme and address of a live host, or \<open>None\<close>\<close>
  "check_host E domain w = (host_probe E (clock w) domain, net_call (Probe domain) w)"

text \<open>
  Awaiting the result of a call to a memoised coroutine function. The coroutine object
  of an argument tuple runs its body the first time it is awaited; awaiting it again
  raises \<open>RuntimeError\<close>, since a coroutine cannot be reused.
\<close>

definition await_cached ::
    "coro_key \<Rightarrow> (world \<Rightarrow> (py_error + 'a) \<times> world) \<Rightarrow> world \<Rightarrow> (py_error + 'a) \<times> world" where
  "await_cached key body w =
     (if key \<in> set (awaited w) then (Inl RuntimeError, w)
      else body (w\<lparr>awaited := awaited w @ [key]\<rparr>))"

definition await_check_host ::
    "env \<Rightarrow> string \<Rightarrow> world \<Rightarrow> (py_error + (string \<times> string) option) \<times> world" where
  \<comment> \<open>\<open>await self.check_host(domain)\<close>\<close>
  "await_check_host E domain w =
     await_cached (CheckHost domain)
       (\<lambda>w'. case check_host E domain w' of (host_result, w'') \<Rightarrow> (Inr host_result, w'')) w"

definition await_fetch_resource ::
    "lib \<Rightarrow> env \<Rightarrow> nat \<Rightarrow> string \<Rightarrow> string option \<Rightarrow> world
      \<Rightarrow> (py_error + WebResource option) \<times> world" where
  \<comment> \<open>\<open>await fetch_resource(client=client, url=url, ip_address=ip_address)\<close>\<close>
  "await_fetch_resource L E client url ip_address w =
     await_cached (FetchResource client url ip_address) (fetch_resource L E url ip_address) w"

section \<open>The pipeline of one domain\<close>

definition page_summary :: "lib \<Rightarrow> WebResource \<Rightarrow> json" where
  "page_summary L page =
     JObj [(''url'', JStr (wr_url page)),
           (''status'', JInt (wr_status page)),
           (''hash'', JStr (wr_hash page)),
           (''size'', JInt (wr_size page)),
           (''content_type'', JStr (wr_content_type page)),
           (''ip_address'', JStr (wr_ip page)),
           (''date_retrieved'', JStr (isoformat L (wr_date_retrieved page))),
           (''date_modified'', opt_iso L (wr_date_modified page))]"

definition save_domain_content :: "lib \<Rightarrow> WebResource list \<Rightarrow> world \<Rightarrow> py_error + world" where
  "save_domain_content L pages w =
     (case pages of
        [] \<Rightarrow> Inr w
      | page0 # _ \<Rightarrow>
          bind_err (get_cache_path L (wr_url page0) None) (\<lambda>p.
            let cache_path = parent p;
                content_path = path_join cache_path ''content.json'';
                page_data = map (page_summary L) pages
            in Inr (w\<lparr>fs := (fs w)(content_path \<mapsto> JArr page_data),
                      io_log := io_log w @ [WroteIndex content_path]\<rparr>)))"

fun sitemap_paths :: "lib \<Rightarrow> string list \<Rightarrow> py_error + string list" where
  \<comment> \<open>the path component of each sitemap URL, in order\<close>
  "sitemap_paths L [] = Inr []"
| "sitemap_paths L (sitemap_url # rest) =
     (case urlparse L sitemap_url of
        None \<Rightarrow> Inl ValueError
      | Some parsed_url \<Rightarrow>
          bind_err (sitemap_paths L rest) (\<lambda>ps. Inr (pr_path parsed_url # ps)))"

definition DEFAULT_MAX_SITEMAPS :: nat where
  "DEFAULT_MAX_SITEMAPS = 10"

definition read_robots ::
    "lib \<Rightarrow> env \<Rightarrow> WebResource option \<Rightarrow> attr_value \<Rightarrow> string list
      \<Rightarrow> py_error + attr_value \<times> string list" where
  \<comment> \<open>the block of \<open>get_resources\<close> under \<open>if robots_resource\<close>: the new delay and path list\<close>
  "read_robots L E robots_resource domain_delay domain_paths =
     (case robots_resource of
        None \<Rightarrow> Inr (domain_delay, domain_paths)
      | Some r \<Rightarrow>
          bind_err (robots_parse E (wr_content r)) (\<lambda>robots_parser.
            let domain_delay' =
                  (case crawl_delay robots_parser of None \<Rightarrow> domain_delay | Some d \<Rightarrow> AInt d);
                maps = (case site_maps robots_parser of None \<Rightarrow> [] | Some sm \<Rightarrow> sm)
            in bind_err (sitemap_paths L (take DEFAULT_MAX_SITEMAPS maps)) (\<lambda>ps.
                 Inr (domain_delay', domain_paths @ ps))))"

definition sleep :: "real \<Rightarrow> world \<Rightarrow> world" where
  "sleep d w = w\<lparr>slept := slept w @ [d]\<rparr>"

fun dispatch_loop ::
    "WebSurveyConfig \<Rightarrow> string \<Rightarrow> attr_value \<Rightarrow> string list \<Rightarrow> string list \<Rightarrow> world
      \<Rightarrow> (py_error + string list) \<times> world" where
  \<comment> \<open>the loop over \<open>domain_paths\<close>: a task is the URL of the fetch it will run\<close>
  "dispatch_loop C base_url domain_delay [] tasks w = (Inr tasks, w)"
| "dispatch_loop C base_url domain_delay (path # rest) tasks w =
     (if path = ''/robots.txt'' then dispatch_loop C base_url domain_delay rest tasks w
      else case bind_err (config_attr C ''http_delay_max'')
                  (\<lambda>http_delay_max. min_delay http_delay_max domain_delay) of
             Inl e \<Rightarrow> (Inl e, w)
           | Inr seconds \<Rightarrow>
               dispatch_loop C base_url domain_delay rest (tasks @ [base_url @ path])
                 (sleep seconds w))"

text \<open>
  The loop over \<open>asyncio.as_completed(tasks)\<close>. The coroutine objects are put in a set,
  so that a URL dispatched twice is one task, and every task is started before the
  loop awaits the first of them. A task runs up to its HTTP request in the turn in
  which it is started: it ends there when the cache answers (or when reading the cache
  raises), and waits otherwise. No task writes before every task has looked up the
  cache. The tasks then complete one by one, each exactly once: those that ended in
  their first turn in the order of their start, then the waiting ones in the order
  \<open>arrival_rank\<close>, each running from its request to its return as one step.
\<close>

type_synonym fetch_task = "string \<times> (py_error + WebResource option) option"

fun start_tasks ::
    "lib \<Rightarrow> nat \<Rightarrow> string option \<Rightarrow> string list \<Rightarrow> world \<Rightarrow> fetch_task list \<times> world" where
  \<comment> \<open>the first turn of each task: \<open>Some\<close> is the result of a task that has ended,
      \<open>None\<close> a task that waits for its response\<close>
  "start_tasks L client ip_address [] w = ([], w)"
| "start_tasks L client ip_address (url # rest) w =
     (let first_turn =
            await_cached (FetchResource client url ip_address)
              (\<lambda>w'. (load_from_cache L url None (fs w'), w')) w;
          state = (case fst first_turn of
                     Inl e \<Rightarrow> Some (Inl e)
                   | Inr (Some cached_resource) \<Rightarrow> Some (Inr (Some cached_resource))
                   | Inr None \<Rightarrow> None)
      in case start_tasks L client ip_address rest (snd first_turn) of
           (started, w') \<Rightarrow> ((url, state) # started, w'))"

definition completion_order :: "env \<Rightarrow> fetch_task list \<Rightarrow> fetch_task list" where
  "completion_order E started =
     filter (\<lambda>t. snd t \<noteq> None) started @
     sort_key (\<lambda>t. arrival_rank E (fst t)) (filter (\<lambda>t. snd t = None) started)"

fun resolve_tasks ::
    "lib \<Rightarrow> env \<Rightarrow> string option \<Rightarrow> fetch_task list \<Rightarrow> WebResource list \<Rightarrow> world
      \<Rightarrow> (py_error + WebResource list) \<times> world" where
  \<comment> \<open>the loop over the completed tasks\<close>
  "resolve_tasks L E ip_address [] pages w = (Inr pages, w)"
| "resolve_tasks L E ip_address ((url, state) # rest) pages w =
     (case (case state of
              Some result \<Rightarrow> (result, w)
            | None \<Rightarrow> fetch_network L E url ip_address w) of
        (Inl e, w') \<Rightarrow> (Inl e, w')
      | (Inr None, w') \<Rightarrow> resolve_tasks L E ip_address rest pages w'
      | (Inr (Some web_resource), w') \<Rightarrow>
          resolve_tasks L E ip_address rest (pages @ [web_resource]) w')"

definition get_resources ::
    "lib \<Rightarrow> WebSurveyConfig \<Rightarrow> env \<Rightarrow> string \<Rightarrow> string list option \<Rightarrow> world
      \<Rightarrow> (py_error + WebResource list) \<times> world" where
  \<comment> \<open>the result is the list of the resources yielded, or the exception raised\<close>
  "get_resources L C E domain paths w =
     (case config_attr C ''http_delay'' of
        Inl e \<Rightarrow> (Inl e, w)
      | Inr http_delay \<Rightarrow>
          (let paths = (case paths of None \<Rightarrow> path_list C | Some ps \<Rightarrow> ps) in
           case await_check_host E domain w of
             (Inl e, w0) \<Rightarrow> (Inl e, w0)
           | (Inr None, w0) \<Rightarrow> (Inr [], w0)
           | (Inr (Some (scheme, ip_address)), w0) \<Rightarrow>
               (let base_url = scheme @ ''://'' @ domain;
                    client = next_client w0;
                    w0' = w0\<lparr>next_client := Suc client\<rparr>
                in case await_fetch_resource L E client (base_url @ ''/robots.txt'')
                          (Some ip_address) w0' of
                     (Inl e, w1) \<Rightarrow> (Inl e, w1)
                   | (Inr robots_resource, w1) \<Rightarrow>
                       (case read_robots L E robots_resource http_delay paths of
                          Inl e \<Rightarrow> (Inl e, w1)
                        | Inr (domain_delay, domain_paths) \<Rightarrow>
                            (case dispatch_loop C base_url domain_delay domain_paths [] w1 of
                               (Inl e, w2) \<Rightarrow> (Inl e, w2)
                             | (Inr tasks, w2) \<Rightarrow>
                                 (case start_tasks L client (Some ip_address)
                                         (sort_key (start_rank E) (remdups tasks)) w2 of
                                    (started, w3) \<Rightarrow>
                                      (case resolve_tasks L E (Some ip_address)
                                              (completion_order E started) [] w3 of
                                         (Inl e, w4) \<Rightarrow> (Inl e, w4)
                                       | (Inr pages, w4) \<Rightarrow>
                                           (case save_domain_content L pages w4 of
                                              Inl e \<Rightarrow> (Inl e, w4)
                                            | Inr w5 \<Rightarrow> (Inr pages, w5)))))))))"

section \<open>The scheduler: progress counting\<close>

definition collect_domain ::
    "lib \<Rightarrow> WebSurveyConfig \<Rightarrow> env \<Rightarrow> string \<Rightarrow> world \<Rightarrow> (int \<times> int \<times> int) \<times> world" where
  "collect_domain L C E domain w =
     (case get_resources L C E domain None w of
        (Inl e, w') \<Rightarrow> ((0, 0, 0), w')
      | (Inr pages, w') \<Rightarrow> ((int (length pages), sum_list (map wr_size pages), 1), w'))"

fun run_tasks ::
    "lib \<Rightarrow> WebSurveyConfig \<Rightarrow> env \<Rightarrow> string list \<Rightarrow> int \<Rightarrow> world \<Rightarrow> int \<times> world" where
  \<comment> \<open>the loop \<open>for task in tasks\<close> of \<open>collect_sites_parallel\<close>, on \<open>num_sites\<close>;
      each pipeline runs as one step\<close>
  "run_tasks L C E [] num_sites w = (num_sites, w)"
| "run_tasks L C E (domain # rest) num_sites w =
     (case collect_domain L C E domain w of
        ((num_pages, num_bytes, success), w') \<Rightarrow>
          run_tasks L C E rest (if success \<noteq> 0 then num_sites + 1 else num_sites) w')"

section \<open>Random draws\<close>

text \<open>
  The source of randomness is the sequence of raw draws still to come. Each operation
  of the \<open>random\<close> module takes the draws it needs from the front.
\<close>

type_synonym rng = "nat \<Rightarrow> nat"

definition draw :: "rng \<Rightarrow> nat \<times> rng" where
  "draw r = (r 0, \<lambda>n. r (Suc n))"

definition randbelow :: "nat \<Rightarrow> rng \<Rightarrow> nat \<times> rng" where
  "randbelow n r = (case draw r of (x, r') \<Rightarrow> (x mod n, r'))"

definition random_unit :: "rng \<Rightarrow> real \<times> rng" where
  \<comment> \<open>\<open>random.random()\<close>: a multiple of \<open>2 ^ -53\<close> in the interval from 0 to 1, 1 excluded\<close>
  "random_unit r = (case draw r of (x, r') \<Rightarrow> (real (x mod 2 ^ 53) / 2 ^ 53, r'))"

definition random_choice :: "'a list \<Rightarrow> rng \<Rightarrow> (py_error + 'a) \<times> rng" where
  "random_choice seq r =
     (if seq = [] then (Inl IndexError, r)
      else case randbelow (length seq) r of (i, r') \<Rightarrow> (Inr (seq ! i), r'))"

definition random_randint :: "nat \<Rightarrow> nat \<Rightarrow> rng \<Rightarrow> nat \<times> rng" where
  \<comment> \<open>\<open>random.randint(a, b)\<close> for \<open>a \<le> b\<close>\<close>
  "random_randint a b r = (case randbelow (b - a + 1) r of (i, r') \<Rightarrow> (a + i, r'))"

fun sample_pool :: "'a list \<Rightarrow> nat \<Rightarrow> rng \<Rightarrow> 'a list \<times> rng" where
  \<comment> \<open>drawing without replacement: the chosen slot is refilled with the last element\<close>
  "sample_pool pool 0 r = ([], r)"
| "sample_pool pool (Suc k) r =
     (case randbelow (length pool) r of (j, r') \<Rightarrow>
      case sample_pool (butlast (pool[j := last pool])) k r' of (xs, r'') \<Rightarrow>
        (pool ! j # xs, r''))"

definition random_sample :: "'a list \<Rightarrow> nat \<Rightarrow> rng \<Rightarrow> (py_error + 'a list) \<times> rng" where
  "random_sample population k r =
     (if length population < k then (Inl ValueError, r)
      else case sample_pool population k r of (xs, r') \<Rightarrow> (Inr xs, r'))"

fun accumulate :: "real list \<Rightarrow> real \<Rightarrow> real list" where
  "accumulate [] acc = []"
| "accumulate (x # xs) acc = (acc + x) # accumulate xs (acc + x)"

definition bisect :: "real list \<Rightarrow> real \<Rightarrow> nat \<Rightarrow> nat" where
  \<comment> \<open>\<open>bisect(a, x, 0, hi)\<close> on a non-decreasing list: how many of \<open>a[0:hi]\<close> are at most \<open>x\<close>\<close>
  "bisect a x hi = length (takeWhile (\<lambda>c. c \<le> x) (take hi a))"

definition random_choices1 :: "'a list \<Rightarrow> real list \<Rightarrow> rng \<Rightarrow> (py_error + 'a) \<times> rng" where
  \<comment> \<open>\<open>random.choices(population, weights=weights, k=1)[0]\<close>\<close>
  "random_choices1 population weights r =
     (let cum_weights = accumulate weights 0;
          n = length population
      in if length cum_weights \<noteq> n then (Inl ValueError, r)
         else if cum_weights = [] then (Inl IndexError, r)
         else (let total = last cum_weights in
               if total \<le> 0 then (Inl ValueError, r)
               else case random_unit r of (u, r') \<Rightarrow>
                      (Inr (population ! bisect cum_weights (u * total) (n - 1)), r')))"

section \<open>String operations of the generator\<close>

fun split_on :: "char \<Rightarrow> string \<Rightarrow> string list" where
  \<comment> \<open>\<open>s.split(sep)\<close> for a separator of one character\<close>
  "split_on sep [] = [[]]"
| "split_on sep (c # cs) =
     (let ps = split_on sep cs in
      if c = sep then [] # ps else (c # hd ps) # tl ps)"

fun join :: "string \<Rightarrow> string list \<Rightarrow> string" where
  \<comment> \<open>\<open>sep.join(parts)\<close>\<close>
  "join sep [] = []"
| "join sep [p] = p"
| "join sep (p # q # ps) = p @ sep @ join sep (q # ps)"

definition endswith :: "string \<Rightarrow> string \<Rightarrow> bool" where
  "endswith s suffix \<longleftrightarrow>
     length suffix \<le> length s \<and> drop (length s - length suffix) s = suffix"

definition rstrip_dot :: "string \<Rightarrow> string" where
  \<comment> \<open>\<open>s.rstrip(".")\<close>\<close>
  "rstrip_dot s = rev (dropWhile (\<lambda>c. c = CHR ''.'') (rev s))"

function str_of_nat :: "nat \<Rightarrow> string" where
  \<comment> \<open>\<open>str(n)\<close>\<close>
  "str_of_nat n =
     (if n < 10 then [digits ! n] else str_of_nat (n div 10) @ [digits ! (n mod 10)])"
  by pat_completeness auto
termination
  by (relation "measure id") auto

section \<open>The domain generator\<close>

record DomainGenerator =
  known_domains :: "string list"
  dictionary_words :: "string list"
  known_tlds :: "string list"

text \<open>
  \<open>resolve_ptr\<close> stands for the reverse lookup of an IPv4 address given in dotted
  form: the records of the answer, or the exception.
\<close>

record gen_env =
  resolve_ptr :: "string \<Rightarrow> py_error + string list"

definition get_random_known_domain :: "DomainGenerator \<Rightarrow> rng \<Rightarrow> (py_error + string) \<times> rng" where
  "get_random_known_domain G r = random_choice (known_domains G) r"

definition get_random_known_domain_tld :: "DomainGenerator \<Rightarrow> rng \<Rightarrow> (py_error + string) \<times> rng" where
  "get_random_known_domain_tld G r =
     (case get_random_known_domain G r of
        (Inl e, r1) \<Rightarrow> (Inl e, r1)
      | (Inr domain, r1) \<Rightarrow>
          (case random_choice (known_tlds G) r1 of
             (Inl e, r2) \<Rightarrow> (Inl e, r2)
           | (Inr random_tld, r2) \<Rightarrow>
               (let domain_parts = split_on (CHR ''.'') domain
                in (Inr (join ''.'' (butlast domain_parts @ [random_tld])), r2))))"

definition string_to_domain :: "string \<Rightarrow> string" where
  "string_to_domain input_string =
     map str_lower_char
       (filter (\<lambda>c. isalnum c \<or> c \<in> set [CHR ''-'', CHR ''.'']) input_string)"

definition get_random_words_domain ::
    "DomainGenerator \<Rightarrow> nat \<Rightarrow> nat \<Rightarrow> rng \<Rightarrow> (py_error + string) \<times> rng" where
  "get_random_words_domain G min_words max_words r =
     (case random_randint min_words max_words r of (num_words, r1) \<Rightarrow>
      case random_sample (dictionary_words G) num_words r1 of
        (Inl e, r2) \<Rightarrow> (Inl e, r2)
      | (Inr words, r2) \<Rightarrow>
          (case random_choice [[], ''-'', ''.''] r2 of
             (Inl e, r3) \<Rightarrow> (Inl e, r3)
           | (Inr separator, r3) \<Rightarrow>
               (case random_choice (known_tlds G) r3 of
                  (Inl e, r4) \<Rightarrow> (Inl e, r4)
                | (Inr tld, r4) \<Rightarrow>
                    (Inr (string_to_domain (join separator words) @ ''.'' @ tld), r4))))"

definition get_random_chars_domain ::
    "DomainGenerator \<Rightarrow> nat \<Rightarrow> nat \<Rightarrow> rng \<Rightarrow> (py_error + string) \<times> rng" where
  "get_random_chars_domain G min_chars max_chars r =
     (case random_randint min_chars max_chars r of (num_chars, r1) \<Rightarrow>
      case random_sample ascii_lowercase num_chars r1 of
        (Inl e, r2) \<Rightarrow> (Inl e, r2)
      | (Inr characters, r2) \<Rightarrow>
          (case random_choice (known_tlds G) r2 of
             (Inl e, r3) \<Rightarrow> (Inl e, r3)
           | (Inr tld, r3) \<Rightarrow> (Inr (characters @ ''.'' @ tld), r3)))"

definition get_random_domain_tld_suffix :: "DomainGenerator \<Rightarrow> rng \<Rightarrow> (py_error + string) \<times> rng" where
  "get_random_domain_tld_suffix G r =
     (case random_choice (known_tlds G) r of
        (Inl e, r1) \<Rightarrow> (Inl e, r1)
      | (Inr tld, r1) \<Rightarrow>
          (let valid_words =
                 filter (\<lambda>word. endswith word tld \<and> length tld < length word)
                   (dictionary_words G)
           in if length valid_words = 0 then get_random_words_domain G 1 3 r1
              else case random_choice valid_words r1 of
                     (Inl e, r2) \<Rightarrow> (Inl e, r2)
                   | (Inr word, r2) \<Rightarrow>
                       (let subword = (if length tld = 0 then []
                                       else take (length word - length tld) word)
                        in (Inr (subword @ ''.'' @ tld), r2))))"

definition get_random_ipv4_domain ::
    "DomainGenerator \<Rightarrow> gen_env \<Rightarrow> rng \<Rightarrow> (py_error + string) \<times> rng" where
  "get_random_ipv4_domain G X r =
     (case random_randint 0 255 r of (a, r1) \<Rightarrow>
      case random_randint 0 255 r1 of (b, r2) \<Rightarrow>
      case random_randint 0 255 r2 of (c, r3) \<Rightarrow>
      case random_randint 0 255 r3 of (d, r4) \<Rightarrow>
        (let ipv4_address = join ''.'' (map str_of_nat [a, b, c, d]) in
         case resolve_ptr X ipv4_address of
           Inr (rr # _) \<Rightarrow> (Inr rr, r4)
         | _ \<Rightarrow> get_random_known_domain G r4))"


definition call_method ::
    "DomainGenerator \<Rightarrow> gen_env \<Rightarrow> string \<Rightarrow> rng \<Rightarrow> (py_error + string) \<times> rng" where
  \<comment> \<open>\<open>getattr(self, method)()\<close> for the name of a strategy, and for a name that is no
      attribute of the generator, which raises\<close>
  "call_method G X method r =
     (if method = ''get_random_known_domain'' then get_random_known_domain G r
      else if method = ''get_random_known_domain_tld'' then get_random_known_domain_tld G r
      else if method = ''get_random_words_domain'' then get_random_words_domain G 1 3 r
      else if method = ''get_random_chars_domain'' then get_random_chars_domain G 1 10 r
      else if method = ''get_random_domain_tld_suffix'' then get_random_domain_tld_suffix G r
      else if method = ''get_random_ipv4_domain'' then get_random_ipv4_domain G X r
      else (Inl AttributeError, r))"

text \<open>
  The loop of \<open>generate\<close> has no bound in the source. Here it runs for at most the
  given number of iterations: \<open>None\<close> is the answer of a loop that has not returned
  by then, \<open>Some (Inl e)\<close> an exception that leaves \<open>generate\<close>.
\<close>

fun generate_loop ::
    "nat \<Rightarrow> DomainGenerator \<Rightarrow> gen_env \<Rightarrow> (string \<times> real) list \<Rightarrow> rng
      \<Rightarrow> (py_error + string) option \<times> rng" where
  "generate_loop 0 G X method_weights r = (None, r)"
| "generate_loop (Suc fuel) G X method_weights r =
     (case random_choices1 (map fst method_weights) (map snd method_weights) r of
        (Inl e, r1) \<Rightarrow> (Some (Inl e), r1)
      | (Inr method, r1) \<Rightarrow>
          (case call_method G X method r1 of
             (Inl e, r2) \<Rightarrow> generate_loop fuel G X method_weights r2
           | (Inr domain, r2) \<Rightarrow> (Some (Inr domain), r2)))"

definition generate ::
    "nat \<Rightarrow> DomainGenerator \<Rightarrow> WebSurveyConfig \<Rightarrow> gen_env \<Rightarrow> (string \<times> real) list option \<Rightarrow> rng
      \<Rightarrow> (py_error + string) option \<times> rng" where
  "generate fuel G C X method_weights r =
     (let method_weights' =
            (case method_weights of
               None \<Rightarrow> domain_weights C
             | Some mw \<Rightarrow> if mw = [] then domain_weights C else mw)
      in generate_loop fuel G X method_weights' r)"

section \<open>The scheduler: the loop over batches\<close>

fun generate_batch ::
    "nat \<Rightarrow> nat \<Rightarrow> DomainGenerator \<Rightarrow> WebSurveyConfig \<Rightarrow> gen_env \<Rightarrow> rng
      \<Rightarrow> (py_error + string list) option \<times> rng" where
  \<comment> \<open>\<open>[generate().rstrip(".") for _ in range(k)]\<close>\<close>
  "generate_batch fuel 0 G C X r = (Some (Inr []), r)"
| "generate_batch fuel (Suc k) G C X r =
     (case generate fuel G C X None r of
        (None, r1) \<Rightarrow> (None, r1)
      | (Some (Inl e), r1) \<Rightarrow> (Some (Inl e), r1)
      | (Some (Inr domain), r1) \<Rightarrow>
          (case generate_batch fuel k G C X r1 of
             (Some (Inr ds), r2) \<Rightarrow> (Some (Inr (rstrip_dot domain # ds)), r2)
           | other \<Rightarrow> other))"

fun sites_loop ::
    "nat \<Rightarrow> nat \<Rightarrow> lib \<Rightarrow> WebSurveyConfig \<Rightarrow> env \<Rightarrow> DomainGenerator \<Rightarrow> gen_env \<Rightarrow> int \<Rightarrow> nat
      \<Rightarrow> int \<Rightarrow> world \<Rightarrow> rng \<Rightarrow> bool option \<times> int \<times> world \<times> rng" where
  \<comment> \<open>the \<open>while True\<close> loop of \<open>collect_sites_parallel\<close>, for at most \<open>fuel\<close> batches\<close>
  "sites_loop 0 gfuel L C E G X max_sites max_workers num_sites w r = (None, num_sites, w, r)"
| "sites_loop (Suc fuel) gfuel L C E G X max_sites max_workers num_sites w r =
     (if max_sites \<le> num_sites then (Some True, num_sites, w, r)
      else case generate_batch gfuel (max_workers * 4) G C X r of
             (None, r1) \<Rightarrow> (None, num_sites, w, r1)
           | (Some (Inl e), r1) \<Rightarrow> (Some False, num_sites, w, r1)
           | (Some (Inr domains_to_process), r1) \<Rightarrow>
               (case run_tasks L C E domains_to_process num_sites w of
                  (num_sites', w') \<Rightarrow>
                    sites_loop fuel gfuel L C E G X max_sites max_workers num_sites' w' r1))"

definition collect_sites_parallel ::
    "nat \<Rightarrow> nat \<Rightarrow> lib \<Rightarrow> WebSurveyConfig \<Rightarrow> env \<Rightarrow> DomainGenerator \<Rightarrow> gen_env \<Rightarrow> int option
      \<Rightarrow> nat \<Rightarrow> world \<Rightarrow> rng \<Rightarrow> bool option \<times> int \<times> world \<times> rng" where
  "collect_sites_parallel fuel gfuel L C E G X max_sites max_workers w r =
     (let max_sites' =
            (case max_sites of None \<Rightarrow> 1000000 | Some m \<Rightarrow> if m = 0 then 1000000 else m)
      in sites_loop fuel gfuel L C E G X max_sites' max_workers 0 w r)"

section \<open>Predicates used in the statements\<close>

definition is_tag_at :: "bytes \<Rightarrow> nat \<Rightarrow> bool" where
  \<comment> \<open>an opening noscript tag starts at position \<open>p\<close> of the lower-cased body\<close>
  "is_tag_at lc p \<longleftrightarrow> p \<le> length lc \<and> take 10 (drop p lc) = ''<noscript>''"

definition noscript_region :: "bytes \<Rightarrow> nat \<Rightarrow> bytes" where
  \<comment> \<open>from the tag at \<open>p\<close> up to the next closing tag, or 256 bytes from \<open>p\<close> without one\<close>
  "noscript_region lc p =
     slice lc p (case find_from lc ''</noscript>'' p of
                   None \<Rightarrow> min (p + 256) (length lc)
                 | Some q \<Rightarrow> q)"

definition some_noscript_block_has_javascript :: "bytes \<Rightarrow> bool" where
  \<comment> \<open>the wording of the specification: the body has a noscript block whose region
      contains the token\<close>
  "some_noscript_block_has_javascript content =
     (let lc = bytes_lower content in
      list_ex (\<lambda>p. is_tag_at lc p \<and> contains ''javascript'' (noscript_region lc p))
        [0..<Suc (length lc)])"

definition first_noscript_block_has_javascript :: "bytes \<Rightarrow> bool" where
  \<comment> \<open>the same for the first noscript tag of the body only\<close>
  "first_noscript_block_has_javascript content =
     (let lc = bytes_lower content in
      list_ex (\<lambda>p. is_tag_at lc p \<and> \<not> list_ex (is_tag_at lc) [0..<p]
                   \<and> contains ''javascript'' (noscript_region lc p))
        [0..<Suc (length lc)])"



section \<open>A small concrete library and environment\<close>

text \<open>
  Concrete stand-ins for the library functions and for the outside, to evaluate the
  model at concrete inputs.
\<close>

definition hexdigits :: string where
  "hexdigits = ''0123456789abcdef''"

definition stub_hexdigest :: "bytes \<Rightarrow> string" where
  \<comment> \<open>the hexadecimal text of the bytes themselves\<close>
  "stub_hexdigest b =
     concat (map (\<lambda>c. [hexdigits ! ((of_char c :: nat) div 16),
                        hexdigits ! ((of_char c :: nat) mod 16)]) b)"

definition stub_compress :: "bytes \<Rightarrow> bytes" where
  "stub_compress b = ''xz:'' @ b"

definition stub_decompress :: "bytes \<Rightarrow> bytes option" where
  "stub_decompress z = (if take 3 z = ''xz:'' then Some (drop 3 z) else None)"

definition stub_b64encode :: "bytes \<Rightarrow> string" where
  "stub_b64encode b = ''b64:'' @ b"

definition stub_b64decode :: "string \<Rightarrow> bytes option" where
  "stub_b64decode s = (if take 4 s = ''b64:'' then Some (drop 4 s) else None)"

definition nat_of_digits :: "string \<Rightarrow> nat" where
  "nat_of_digits s =
     foldl (\<lambda>a c. 10 * a + (case find_sub [c] digits of None \<Rightarrow> 0 | Some v \<Rightarrow> v)) 0 s"

definition stub_isoformat :: "datetime \<Rightarrow> string" where
  "stub_isoformat d =
     str_of_nat (dt_micros d) @
     (case dt_utcoffset d of
        None \<Rightarrow> []
      | Some k \<Rightarrow> (if k < 0 then ''-'' else ''+'') @ str_of_nat (nat \<bar>k\<bar>))"

definition stub_fromisoformat :: "string \<Rightarrow> datetime option" where
  "stub_fromisoformat s =
     (let ds = takeWhile (\<lambda>c. c \<in> set digits) s;
          rest = dropWhile (\<lambda>c. c \<in> set digits) s
      in if ds = [] then None
         else case rest of
                [] \<Rightarrow> Some \<lparr>dt_micros = nat_of_digits ds, dt_utcoffset = None\<rparr>
              | c # os \<Rightarrow>
                  if os \<noteq> [] \<and> list_all (\<lambda>x. x \<in> set digits) os \<and> c \<in> set ''+-''
                  then Some \<lparr>dt_micros = nat_of_digits ds,
                             dt_utcoffset = Some ((if c = CHR ''-'' then - 1 else 1)
                                                  * int (nat_of_digits os))\<rparr>
                  else None)"

definition stub_urlparse :: "string \<Rightarrow> parse_result option" where
  \<comment> \<open>splits a URL of the shape \<open>scheme://netloc/path?query#fragment\<close>\<close>
  "stub_urlparse url =
     (let start = (case find_sub ''://'' url of None \<Rightarrow> 0 | Some i \<Rightarrow> i + 3);
          scheme = (case find_sub ''://'' url of None \<Rightarrow> [] | Some i \<Rightarrow> take i url);
          rest = drop start url;
          netloc = (if start = 0 then [] else takeWhile (\<lambda>c. c \<notin> set ''/?#'') rest);
          tail = drop (length netloc) rest;
          before_fragment = takeWhile (\<lambda>c. c \<noteq> CHR ''#'') tail;
          fragment = drop (Suc (length before_fragment)) tail;
          path = takeWhile (\<lambda>c. c \<noteq> CHR ''?'') before_fragment;
          query = drop (Suc (length path)) before_fragment
      in Some \<lparr>pr_scheme = scheme, pr_netloc = netloc, pr_path = path, pr_params = [],
               pr_query = query, pr_fragment = fragment\<rparr>)"

definition stub_lib :: lib where
  "stub_lib =
     \<lparr>blake2b_hexdigest = stub_hexdigest,
      lzma_compress = stub_compress, lzma_decompress = stub_decompress,
      b64encode = stub_b64encode, b64decode = stub_b64decode,
      isoformat = stub_isoformat, fromisoformat = stub_fromisoformat,
      urlparse = stub_urlparse\<rparr>"

definition robots_body :: bytes where
  "robots_body = ''User-agent: *'' @ [CHR 0x0A] @ ''Crawl-delay: 999999''"

definition home_body :: bytes where
  "home_body = ''<html><noscript>Please enable JavaScript</noscript></html>''"

definition two_blocks_body :: bytes where
  "two_blocks_body = ''<noscript>a</noscript><noscript>javascript</noscript>''"

definition stub_http_get :: "nat \<Rightarrow> string \<Rightarrow> response option" where
  "stub_http_get t url =
     (if url = ''https://example.com/robots.txt'' then
        Some \<lparr>status_code = 200, resp_content = robots_body,
              resp_headers = [(''content-type'', ''text/plain'')],
              server_addr = Some ''93.184.216.34''\<rparr>
      else if url = ''https://example.com/'' then
        Some \<lparr>status_code = 200, resp_content = home_body,
              resp_headers = [(''content-type'', ''text/html'')],
              server_addr = None\<rparr>
      else if url = ''https://example.com/two'' then
        Some \<lparr>status_code = 200, resp_content = two_blocks_body,
              resp_headers = [], server_addr = None\<rparr>
      else if url = ''https://example.com/gone'' then
        Some \<lparr>status_code = 404, resp_content = home_body,
              resp_headers = [], server_addr = None\<rparr>
      else None)"

definition stub_robots_parse :: "bytes \<Rightarrow> py_error + robots" where
  "stub_robots_parse body =
     (if body = robots_body then Inr \<lparr>crawl_delay = Some 999999, site_maps = None\<rparr>
      else Inr \<lparr>crawl_delay = None, site_maps = None\<rparr>)"

definition stub_env :: env where
  "stub_env =
     \<lparr>http_get = stub_http_get,
      playwright = (\<lambda>t url. Rendered ''<html>rendered</html>''),
      dateutil_parse = (\<lambda>s. None),
      utc_now = (\<lambda>t. \<lparr>dt_micros = t, dt_utcoffset = Some 0\<rparr>),
      host_probe = (\<lambda>t domain. if domain = ''example.com''
                                then Some (''https'', ''93.184.216.34'') else None),
      robots_parse = stub_robots_parse,
      start_rank = (\<lambda>url. 0), arrival_rank = (\<lambda>url. 0)\<rparr>"

definition default_config :: WebSurveyConfig where
  \<comment> \<open>the default value of every field of the dataclass\<close>
  "default_config =
     \<lparr>s3_bucket = ''web-survey.aleainstitute.ai'', domain_path = ''domains.trie'',
      user_agent =
        ''ALEA-AI-Web-Survey/0.1.0 (https://aleainstitute.ai; hello@aleainstitute.ai)'',
      dns_resolve_timeout = 5, http_pool_size = 5, http_keep_alive = 10,
      http_network_timeout = 5, http_connect_timeout = 5, http_read_timeout = 5,
      http_write_timeout = 5, playwright_timeout = 5,
      path_list = [''/'', ''/robots.txt'', ''/ai.txt'', ''/humans.txt'', ''/security.txt'',
                   ''/sitemap.xml''],
      domain_weights =
        [(''get_random_known_domain'', 90 / 100),
         (''get_random_known_domain_tld'', 2 / 100),
         (''get_random_words_domain'', 2 / 100),
         (''get_random_chars_domain'', 2 / 100),
         (''get_random_domain_tld_suffix'', 2 / 100),
         (''get_random_ipv4_domain'', 2 / 100)]\<rparr>"

definition empty_world :: world where
  "empty_world =
     \<lparr>fs = Map.empty, io_log = [], clock = 0, slept = [], awaited = [], next_client = 0\<rparr>"



definition sample_web_resource :: WebResource where
  \<comment> \<open>the resource of the test suite, with both dates set\<close>
  "sample_web_resource =
     \<lparr>wr_url = ''https://example.com'', wr_ip = ''123.123.123.123'', wr_status = 200,
      wr_hash = ''123456'', wr_size = 100, wr_content = ''Sample content'',
      wr_content_type = ''text/html'', wr_headers = [],
      wr_date_retrieved = \<lparr>dt_micros = 1718000000, dt_utcoffset = Some 0\<rparr>,
      wr_date_modified = Some \<lparr>dt_micros = 1717000000, dt_utcoffset = Some 0\<rparr>\<rparr>"

definition two_resource :: WebResource where
  \<comment> \<open>what a first fetch of \<open>https://example.com/two\<close> builds\<close>
  "two_resource =
     \<lparr>wr_url = ''https://example.com/two'', wr_ip = [], wr_status = 200,
      wr_hash = stub_hexdigest two_blocks_body, wr_size = 53,
      wr_content = two_blocks_body, wr_content_type = ''text/plain'', wr_headers = [],
      wr_date_retrieved = \<lparr>dt_micros = 1, dt_utcoffset = Some 0\<rparr>,
      wr_date_modified = None\<rparr>"

definition two_path :: fspath where
  "two_path = [''~'', ''.alea'', ''web-survey'', ''cache'', ''example.com'', ''2f74776f.json'']"

definition after_two :: world where
  \<comment> \<open>the world after that first fetch\<close>
  "after_two =
     snd (fetch_resource stub_lib stub_env ''https://example.com/two'' None empty_world)"

definition home_resource :: WebResource where
  \<comment> \<open>what a first fetch of \<open>https://example.com/\<close> builds, through the render path\<close>
  "home_resource =
     \<lparr>wr_url = ''https://example.com/'', wr_ip = [], wr_status = 200,
      wr_hash = stub_hexdigest ''<html>rendered</html>'', wr_size = 21,
      wr_content = ''<html>rendered</html>'', wr_content_type = ''text/html'',
      wr_headers = [],
      wr_date_retrieved = \<lparr>dt_micros = 2, dt_utcoffset = Some 0\<rparr>,
      wr_date_modified = None\<rparr>"

definition home_response :: response where
  "home_response =
     \<lparr>status_code = 200, resp_content = home_body,
      resp_headers = [(''content-type'', ''text/html'')], server_addr = None\<rparr>"

definition after_home :: world where
  "after_home =
     snd (fetch_resource stub_lib stub_env ''https://example.com/'' None empty_world)"

definition two_response :: response where
  "two_response =
     \<lparr>status_code = 200, resp_content = two_blocks_body, resp_headers = [],
      server_addr = None\<rparr>"

definition gone_response :: response where
  "gone_response =
     \<lparr>status_code = 404, resp_content = home_body, resp_headers = [],
      server_addr = None\<rparr>"

definition gone_resource :: WebResource where
  \<comment> \<open>what a first fetch of \<open>https://example.com/gone\<close> builds\<close>
  "gone_resource =
     \<lparr>wr_url = ''https://example.com/gone'', wr_ip = [], wr_status = 404,
      wr_hash = stub_hexdigest home_body, wr_size = 58, wr_content = home_body,
      wr_content_type = ''text/plain'', wr_headers = [],
      wr_date_retrieved = \<lparr>dt_micros = 1, dt_utcoffset = Some 0\<rparr>,
      wr_date_modified = None\<rparr>"

definition gone_path :: fspath where
  "gone_path =
     [''~'', ''.alea'', ''web-survey'', ''cache'', ''example.com'', ''2f676f6e65.json'']"

definition home_path :: fspath where
  "home_path = [''~'', ''.alea'', ''web-survey'', ''cache'', ''example.com'', ''2f.json'']"

definition index_path :: fspath where
  "index_path = [''~'', ''.alea'', ''web-survey'', ''cache'', ''example.com'', ''content.json'']"




definition after_await_two :: world where
  \<comment> \<open>the world after the first await of the fetch of \<open>https://example.com/two\<close> with
      client 0\<close>
  "after_await_two =
     snd (await_fetch_resource stub_lib stub_env 0 ''https://example.com/two'' None empty_world)"




section \<open>Shared lemmas\<close>

lemma bind_err_simps [simp]:
  "bind_err (Inl e) f = Inl e" "bind_err (Inr x) f = f x"
  by (simp_all add: bind_err_def)

lemma from_file_file_data:
  assumes "codec_roundtrip L r"
  shows "from_file L (file_data L r) = Inr r"
proof -
  have content:
    "decode_content L (JStr (b64encode L (lzma_compress L (wr_content r)))) = Inr (wr_content r)"
    using assms by (simp add: codec_roundtrip_def decode_content_def)
  have retrieved:
    "parse_iso L (JStr (isoformat L (wr_date_retrieved r))) = Inr (wr_date_retrieved r)"
    using assms by (simp add: codec_roundtrip_def iso_roundtrip_def parse_iso_def)
  have modified:
    "parse_opt_iso L (opt_iso L (wr_date_modified r)) = Inr (wr_date_modified r)"
    using assms
    by (cases "wr_date_modified r")
       (simp_all add: parse_opt_iso_def opt_iso_def truthy_def codec_roundtrip_def
          iso_roundtrip_def parse_iso_def)
  show ?thesis
    unfolding from_file_def
    by (simp add: file_data_def from_json_def get_key_def content retrieved modified
          as_str_def as_int_def as_dict_def)
qed

lemma fetch_resource_hit:
  assumes "get_cache_path L url None = Inr p"
    and "fs w p = Some doc"
    and "from_file L doc = Inr r"
  shows "fetch_resource L E url ip w = (Inr (Some r), w)"
  using assms by (simp add: fetch_resource_def fetch_network_def load_from_cache_def)

lemma fetch_resource_cached:
  assumes "fetch_resource L E url ip w = (Inr (Some r), w1)"
    and "codec_roundtrip L r"
  shows "\<exists>p doc. get_cache_path L url None = Inr p \<and> fs w1 p = Some doc
                  \<and> from_file L doc = Inr r"
  using assms
  by (auto simp add: fetch_resource_def fetch_network_def load_from_cache_def bind_err_def Let_def
        save_to_cache_def save_def tick_def from_file_file_data
      split: sum.splits option.splits if_splits)

lemma first_fetch_two:
  "fetch_resource stub_lib stub_env ''https://example.com/two'' None empty_world
     = (Inr (Some two_resource), after_two)"
proof -
  have "fst (fetch_resource stub_lib stub_env ''https://example.com/two'' None empty_world)
          = Inr (Some two_resource)"
    by code_simp
  then show ?thesis
    by (simp add: after_two_def prod_eq_iff)
qed

lemma codec_two_resource: "codec_roundtrip stub_lib two_resource"
  by code_simp

section \<open>Round trip through the file encoding\<close>

text \<open>
  Claim C5. For every web resource, where the library's codec pairs give the content
  and the dates back, the document that \<open>save\<close> writes at a path is read by
  \<open>from_file\<close> as the same resource: url, hash, size, content (through compression
  and the text-safe encoding), content type, both timestamps, and the other fields.
\<close>

theorem save_from_file_roundtrip:
  assumes "codec_roundtrip L r"
  shows "save L r path files path = Some (file_data L r) \<and>
         from_file L (file_data L r) = Inr r"
  using assms by (simp add: save_def from_file_file_data)

theorem save_from_file_roundtrip_witness:
  "codec_roundtrip stub_lib sample_web_resource \<and>
   save stub_lib sample_web_resource [''test_resource.json''] Map.empty
     [''test_resource.json''] = Some (file_data stub_lib sample_web_resource) \<and>
   from_file stub_lib (file_data stub_lib sample_web_resource) = Inr sample_web_resource"
proof -
  have h: "codec_roundtrip stub_lib sample_web_resource"
    by (simp add: codec_roundtrip_def iso_roundtrip_def stub_lib_def
          sample_web_resource_def stub_b64encode_def stub_b64decode_def stub_compress_def
          stub_decompress_def stub_isoformat_def stub_fromisoformat_def digits_def
          nat_of_digits_def)
  show ?thesis
    using h save_from_file_roundtrip [OF h] by simp
qed

section \<open>The cache is authoritative\<close>

lemma fetch_network_awaited:
  "awaited (snd (fetch_network L E url ip w)) = awaited w"
  by (simp add: fetch_network_def Let_def net_call_def tick_def fetch_content_playwright_def
      split: option.splits sum.splits prod.splits render_outcome.splits)

lemma fetch_resource_awaited:
  "awaited (snd (fetch_resource L E url ip w)) = awaited w"
  by (simp add: fetch_resource_def fetch_network_awaited
      split: option.splits sum.splits)

lemma await_fetch_resource_marks:
  "FetchResource client url ip
     \<in> set (awaited (snd (await_fetch_resource L E client url ip w)))"
  by (simp add: await_fetch_resource_def await_cached_def fetch_resource_awaited)

lemma await_fetch_resource_again:
  "await_fetch_resource L E client url ip (snd (await_fetch_resource L E client url ip w))
     = (Inl RuntimeError, snd (await_fetch_resource L E client url ip w))"
  using await_fetch_resource_marks [of client url ip L E w]
  by (simp add: await_fetch_resource_def await_cached_def)

lemma first_await_two:
  "await_fetch_resource stub_lib stub_env 0 ''https://example.com/two'' None empty_world
     = (Inr (Some two_resource), after_await_two)"
proof -
  have "fst (await_fetch_resource stub_lib stub_env 0 ''https://example.com/two'' None
               empty_world) = Inr (Some two_resource)"
    by code_simp
  then show ?thesis
    by (simp add: after_await_two_def prod_eq_iff)
qed

text \<open>
  Claim C2. The claim holds for the body of \<open>fetch_resource\<close>, and the code breaks it
  for the call that the claim is about. The decorator \<open>functools.cache\<close> sits on a
  coroutine function, so what it memoises is the coroutine object and not the
  resource: awaiting \<open>fetch_resource\<close> a second time with the same client, URL and
  address raises \<open>RuntimeError\<close>, whatever the first await did and whatever the cache
  holds. At the input below the first await fetches the page and fills the cache; the
  second, with the same arguments, raises instead of returning the cached resource;
  only a call with other arguments (here another client) reads the cache entry, and
  it returns the resource of the first fetch with no network operation.
\<close>

theorem second_fetch_with_same_arguments_raises:
  "await_fetch_resource L E client url ip (snd (await_fetch_resource L E client url ip w))
     = (Inl RuntimeError, snd (await_fetch_resource L E client url ip w)) \<and>
   await_fetch_resource stub_lib stub_env 0 ''https://example.com/two'' None empty_world
     = (Inr (Some two_resource), after_await_two) \<and>
   io_log after_await_two = [HttpGet ''https://example.com/two'', WroteEntry two_path] \<and>
   load_from_cache stub_lib ''https://example.com/two'' None (fs after_await_two)
     = Inr (Some two_resource) \<and>
   await_fetch_resource stub_lib stub_env 0 ''https://example.com/two'' None after_await_two
     = (Inl RuntimeError, after_await_two) \<and>
   await_fetch_resource stub_lib stub_env 1 ''https://example.com/two'' None after_await_two
     = (Inr (Some two_resource),
        after_await_two\<lparr>awaited := awaited after_await_two
                                      @ [FetchResource 1 ''https://example.com/two'' None]\<rparr>)"
proof -
  have log: "io_log after_await_two
               = [HttpGet ''https://example.com/two'', WroteEntry two_path]"
    unfolding after_await_two_def by code_simp
  have hit: "load_from_cache stub_lib ''https://example.com/two'' None (fs after_await_two)
               = Inr (Some two_resource)"
    unfolding after_await_two_def by code_simp
  have marked: "awaited after_await_two = [FetchResource 0 ''https://example.com/two'' None]"
    unfolding after_await_two_def by code_simp
  have again: "await_fetch_resource stub_lib stub_env 0 ''https://example.com/two'' None
                 after_await_two = (Inl RuntimeError, after_await_two)"
    using await_fetch_resource_again
      [of stub_lib stub_env 0 "''https://example.com/two''" None empty_world]
    by (simp add: after_await_two_def)
  have other: "await_fetch_resource stub_lib stub_env 1 ''https://example.com/two'' None
                 after_await_two
     = (Inr (Some two_resource),
        after_await_two\<lparr>awaited := awaited after_await_two
                                      @ [FetchResource 1 ''https://example.com/two'' None]\<rparr>)"
    using hit by (simp add: await_fetch_resource_def await_cached_def marked fetch_resource_def)
  show ?thesis
    using await_fetch_resource_again [of L E client url ip w] first_await_two log hit again
      other
    by simp
qed


section \<open>The cache location of a URL\<close>

text \<open>
  Claim C10. Two URLs whose parsed network location and path agree (whatever their
  query strings and fragments) have the same cache location; so once a fetch of the
  first has returned a resource, a fetch of the second returns that very resource,
  stored for the first, and performs no operation.
\<close>

theorem cache_path_ignores_query_and_fragment:
  assumes "urlparse L u1 = Some q1" and "urlparse L u2 = Some q2"
    and "pr_netloc q1 = pr_netloc q2" and "pr_path q1 = pr_path q2"
    and "fetch_resource L E u1 ip w = (Inr (Some r), w1)"
    and "codec_roundtrip L r"
  shows "get_cache_path L u1 cp = get_cache_path L u2 cp \<and>
         fetch_resource L E u2 ip' w1 = (Inr (Some r), w1)"
proof
  show same: "get_cache_path L u1 cp = get_cache_path L u2 cp" for cp
    using assms(1-4) by (simp add: get_cache_path_def)
  obtain p d where
    "get_cache_path L u1 None = Inr p" "fs w1 p = Some d" "from_file L d = Inr r"
    using fetch_resource_cached [OF assms(5,6)] by auto
  then show "fetch_resource L E u2 ip' w1 = (Inr (Some r), w1)"
    using same [of None] by (simp add: fetch_resource_hit)
qed

theorem cache_path_ignores_query_and_fragment_witness:
  "stub_urlparse ''https://example.com/two'' =
     Some \<lparr>pr_scheme = ''https'', pr_netloc = ''example.com'', pr_path = ''/two'',
           pr_params = [], pr_query = [], pr_fragment = []\<rparr> \<and>
   stub_urlparse ''https://example.com/two?page=2#top'' =
     Some \<lparr>pr_scheme = ''https'', pr_netloc = ''example.com'', pr_path = ''/two'',
           pr_params = [], pr_query = ''page=2'', pr_fragment = ''top''\<rparr> \<and>
   get_cache_path stub_lib ''https://example.com/two'' None
     = get_cache_path stub_lib ''https://example.com/two?page=2#top'' None \<and>
   fetch_resource stub_lib stub_env ''https://example.com/two?page=2#top'' None after_two
     = (Inr (Some two_resource), after_two)"
proof -
  have p1: "urlparse stub_lib ''https://example.com/two'' =
     Some \<lparr>pr_scheme = ''https'', pr_netloc = ''example.com'', pr_path = ''/two'',
           pr_params = [], pr_query = [], pr_fragment = []\<rparr>"
    by code_simp
  have p2: "urlparse stub_lib ''https://example.com/two?page=2#top'' =
     Some \<lparr>pr_scheme = ''https'', pr_netloc = ''example.com'', pr_path = ''/two'',
           pr_params = [], pr_query = ''page=2'', pr_fragment = ''top''\<rparr>"
    by code_simp
  have codec: "codec_roundtrip stub_lib two_resource"
    by code_simp
  show ?thesis
    using p1 p2
      cache_path_ignores_query_and_fragment [OF p1 p2 _ _ first_fetch_two codec, of None None]
    by (simp add: stub_lib_def)
qed

section \<open>Hash integrity\<close>

lemma fetch_resource_miss_hash:
  assumes "load_from_cache L url None (fs w) = Inr None"
    and "fetch_resource L E url ip w = (Inr (Some r), w1)"
  shows "wr_hash r = blake2b_hexdigest L (wr_content r) \<and>
         wr_size r = int (length (wr_content r)) \<and>
         (http_get E (clock w) url = Some resp \<and> requires_playwright (resp_content resp)
            \<and> status_code resp \<in> {200, 301}
          \<longrightarrow> fst (fetch_content_playwright E url (net_call (HttpGet url) w))
                = Inr (wr_content r)) \<and>
         (http_get E (clock w) url = Some resp \<and> \<not> (requires_playwright (resp_content resp)
            \<and> status_code resp \<in> {200, 301})
          \<longrightarrow> wr_content r = resp_content resp)"
  using assms
  by (auto simp add: fetch_resource_def fetch_network_def Let_def
      split: option.splits sum.splits if_splits prod.splits)

text \<open>
  Claim C4. A resource that \<open>fetch_resource\<close> builds (on a cache miss) carries the
  digest of exactly the bytes it stores, and their length; when the render fallback
  applies, those bytes are the rendered ones. Reading the cache entry back gives the
  same resource, so the hash is still the digest of the content.
\<close>

theorem fetch_resource_hash_integrity:
  assumes "load_from_cache L url None (fs w) = Inr None"
    and "fetch_resource L E url ip w = (Inr (Some r), w1)"
    and "codec_roundtrip L r"
  shows "wr_hash r = blake2b_hexdigest L (wr_content r) \<and>
         wr_size r = int (length (wr_content r)) \<and>
         (http_get E (clock w) url = Some resp \<and> requires_playwright (resp_content resp)
            \<and> status_code resp \<in> {200, 301}
          \<longrightarrow> fst (fetch_content_playwright E url (net_call (HttpGet url) w))
                = Inr (wr_content r)) \<and>
         load_from_cache L url None (fs w1) = Inr (Some r)"
proof -
  obtain p d where
    "get_cache_path L url None = Inr p" "fs w1 p = Some d" "from_file L d = Inr r"
    using fetch_resource_cached [OF assms(2,3)] by auto
  then have "load_from_cache L url None (fs w1) = Inr (Some r)"
    by (simp add: load_from_cache_def)
  then show ?thesis
    using fetch_resource_miss_hash [OF assms(1,2), of resp] by simp
qed

theorem fetch_resource_hash_integrity_witness:
  "load_from_cache stub_lib ''https://example.com/'' None (fs empty_world) = Inr None \<and>
   fetch_resource stub_lib stub_env ''https://example.com/'' None empty_world
     = (Inr (Some home_resource), after_home) \<and>
   codec_roundtrip stub_lib home_resource \<and>
   http_get stub_env (clock empty_world) ''https://example.com/'' = Some home_response \<and>
   requires_playwright (resp_content home_response) \<and>
   status_code home_response \<in> {200, 301} \<and>
   wr_content home_resource = ''<html>rendered</html>'' \<and>
   wr_hash home_resource = blake2b_hexdigest stub_lib ''<html>rendered</html>'' \<and>
   wr_size home_resource = 21 \<and>
   fst (fetch_content_playwright stub_env ''https://example.com/''
          (net_call (HttpGet ''https://example.com/'') empty_world))
     = Inr ''<html>rendered</html>'' \<and>
   load_from_cache stub_lib ''https://example.com/'' None (fs after_home)
     = Inr (Some home_resource)"
proof -
  have miss: "load_from_cache stub_lib ''https://example.com/'' None (fs empty_world) = Inr None"
    by code_simp
  have "fst (fetch_resource stub_lib stub_env ''https://example.com/'' None empty_world)
          = Inr (Some home_resource)"
    by code_simp
  then have first: "fetch_resource stub_lib stub_env ''https://example.com/'' None empty_world
     = (Inr (Some home_resource), after_home)"
    by (simp add: after_home_def prod_eq_iff)
  have codec: "codec_roundtrip stub_lib home_resource"
    by code_simp
  have resp: "http_get stub_env (clock empty_world) ''https://example.com/'' = Some home_response"
    by code_simp
  have trigger: "requires_playwright (resp_content home_response)"
    by code_simp
  have status: "status_code home_response \<in> {200, 301}"
    by (simp add: home_response_def)
  have content: "wr_content home_resource = ''<html>rendered</html>''"
    by (simp add: home_resource_def)
  show ?thesis
    using miss first codec resp trigger status content
      fetch_resource_hash_integrity [OF miss first codec, of home_response]
    by simp
qed

section \<open>The render fallback\<close>

lemma find_sub_le: "find_sub sub s = Some p \<Longrightarrow> p \<le> length s"
  by (induction s arbitrary: p) (auto split: if_splits)

lemma find_sub_at: "find_sub sub s = Some p \<Longrightarrow> take (length sub) (drop p s) = sub"
  by (induction s arbitrary: p) (auto split: if_splits)

lemma find_sub_least:
  "find_sub sub s = Some p \<Longrightarrow> q < p \<Longrightarrow> take (length sub) (drop q s) \<noteq> sub"
proof (induction s arbitrary: p q)
  case Nil
  then show ?case by (simp split: if_splits)
next
  case (Cons c cs)
  then show ?case
    by (cases q) (auto split: if_splits)
qed

lemma find_sub_None:
  "find_sub sub s = None \<Longrightarrow> q \<le> length s \<Longrightarrow> take (length sub) (drop q s) \<noteq> sub"
proof (induction s arbitrary: q)
  case Nil
  then show ?case by (auto split: if_splits)
next
  case (Cons c cs)
  then show ?case
    by (cases q) (auto split: if_splits)
qed

lemma list_ex_upt: "list_ex P [0..<n] \<longleftrightarrow> (\<exists>p<n. P p)"
  by (auto simp add: list_ex_iff)

lemma first_block_unfold:
  "first_noscript_block_has_javascript content \<longleftrightarrow>
     (\<exists>p\<le>length (bytes_lower content).
        is_tag_at (bytes_lower content) p \<and>
        (\<forall>q<p. \<not> is_tag_at (bytes_lower content) q) \<and>
        contains ''javascript'' (noscript_region (bytes_lower content) p))"
  unfolding first_noscript_block_has_javascript_def Let_def list_ex_upt
  by (simp only: less_Suc_eq_le not_ex de_Morgan_conj not_not imp_conv_disj)

lemma requires_playwright_unfold:
  "requires_playwright content =
     (case find_sub ''<noscript>'' (bytes_lower content) of
        None \<Rightarrow> False
      | Some p0 \<Rightarrow> contains ''javascript'' (noscript_region (bytes_lower content) p0))"
  by (simp add: requires_playwright_def noscript_region_def find_from_def Let_def
        option.map_ident split: option.splits)

lemma is_tag_at_iff:
  "is_tag_at lc p \<longleftrightarrow>
     p \<le> length lc \<and> take (length ''<noscript>'') (drop p lc) = ''<noscript>''"
  by (simp add: is_tag_at_def eval_nat_numeral)

lemma requires_playwright_first_block:
  "requires_playwright content = first_noscript_block_has_javascript content"
proof (cases "find_sub ''<noscript>'' (bytes_lower content)")
  case None
  have "\<not> is_tag_at (bytes_lower content) p" for p
    unfolding is_tag_at_iff using find_sub_None [OF None, of p] by blast
  then show ?thesis
    using None by (simp add: requires_playwright_unfold first_block_unfold)
next
  case (Some p0)
  let ?lc = "bytes_lower content"
  have le: "p0 \<le> length ?lc"
    by (rule find_sub_le [OF Some])
  have at: "is_tag_at ?lc p0"
    unfolding is_tag_at_iff using le find_sub_at [OF Some] by blast
  have least: "\<not> is_tag_at ?lc q" if "q < p0" for q
    unfolding is_tag_at_iff using find_sub_least [OF Some that] by blast
  have uniq: "p = p0" if "is_tag_at ?lc p" and "\<forall>q<p. \<not> is_tag_at ?lc q" for p
  proof (rule ccontr)
    assume "p \<noteq> p0"
    then consider "p < p0" | "p0 < p" by linarith
    then show False
    proof cases
      case 1
      then show False using least that(1) by blast
    next
      case 2
      then show False using at that(2) by blast
    qed
  qed
  have "first_noscript_block_has_javascript content
          = contains ''javascript'' (noscript_region ?lc p0)"
  proof
    assume "first_noscript_block_has_javascript content"
    then obtain p where "is_tag_at ?lc p" "\<forall>q<p. \<not> is_tag_at ?lc q"
      "contains ''javascript'' (noscript_region ?lc p)"
      unfolding first_block_unfold by blast
    then show "contains ''javascript'' (noscript_region ?lc p0)"
      using uniq by blast
  next
    assume "contains ''javascript'' (noscript_region ?lc p0)"
    then show "first_noscript_block_has_javascript content"
      unfolding first_block_unfold using le at least by blast
  qed
  then show ?thesis
    using Some by (simp add: requires_playwright_unfold)
qed


lemma fetch_resource_render:
  assumes "load_from_cache L url None (fs w) = Inr None"
    and "http_get E (clock w) url = Some resp"
    and "requires_playwright (resp_content resp)"
    and "status_code resp \<in> {200, 301}"
  shows "(\<exists>rest. io_log (snd (fetch_resource L E url ip w))
                  = io_log w @ HttpGet url # Render url # rest) \<and>
         (case playwright E (Suc (clock w)) url of
            LaunchFailed \<Rightarrow> fst (fetch_resource L E url ip w) = Inr None
          | PageFailed \<Rightarrow>
              (\<exists>r. fst (fetch_resource L E url ip w) = Inr (Some r) \<and> wr_content r = [])
          | Rendered s \<Rightarrow>
              (\<exists>r. fst (fetch_resource L E url ip w) = Inr (Some r)
                   \<and> wr_content r = utf8_encode s))"
  using assms
  by (auto simp add: fetch_resource_def fetch_network_def load_from_cache_def fetch_content_playwright_def
        net_call_def tick_def save_to_cache_def utf8_encode_def Let_def bind_err_def
      split: sum.splits option.splits render_outcome.splits)

lemma fetch_resource_static:
  assumes "load_from_cache L url None (fs w) = Inr None"
    and "http_get E (clock w) url = Some resp"
    and "status_code resp \<notin> {200, 301} \<or> \<not> requires_playwright (resp_content resp)"
  shows "(\<exists>r. fst (fetch_resource L E url ip w) = Inr (Some r)
              \<and> wr_content r = resp_content resp) \<and>
         (\<exists>p. io_log (snd (fetch_resource L E url ip w))
                = io_log w @ [HttpGet url, WroteEntry p])"
  using assms
  by (auto simp add: fetch_resource_def fetch_network_def load_from_cache_def net_call_def tick_def
        save_to_cache_def Let_def bind_err_def
      split: sum.splits option.splits)

text \<open>
  Claim C8, as amended. The test looks at the first noscript tag of the body only
  (tags and token compared without regard to case): \<open>requires_playwright\<close> holds
  exactly when the region of that first tag contains the token. On a cache miss, when
  it holds and the status is 200 or 301, the render call is made and the resource
  stores the rendered bytes (no resource when the browser cannot be launched); when
  the status is neither 200 nor 301, or the test fails, no render call is made and the
  resource stores the static body.
\<close>

theorem render_fallback_decision:
  assumes "load_from_cache L url None (fs w) = Inr None"
    and "http_get E (clock w) url = Some resp"
  shows "requires_playwright (resp_content resp)
           = first_noscript_block_has_javascript (resp_content resp) \<and>
         (first_noscript_block_has_javascript (resp_content resp)
            \<and> status_code resp \<in> {200, 301} \<longrightarrow>
            (\<exists>rest. io_log (snd (fetch_resource L E url ip w))
                     = io_log w @ HttpGet url # Render url # rest) \<and>
            (case playwright E (Suc (clock w)) url of
               LaunchFailed \<Rightarrow> fst (fetch_resource L E url ip w) = Inr None
             | PageFailed \<Rightarrow>
                 (\<exists>r. fst (fetch_resource L E url ip w) = Inr (Some r) \<and> wr_content r = [])
             | Rendered s \<Rightarrow>
                 (\<exists>r. fst (fetch_resource L E url ip w) = Inr (Some r)
                      \<and> wr_content r = utf8_encode s))) \<and>
         (status_code resp \<notin> {200, 301}
            \<or> \<not> first_noscript_block_has_javascript (resp_content resp) \<longrightarrow>
            (\<exists>r. fst (fetch_resource L E url ip w) = Inr (Some r)
                 \<and> wr_content r = resp_content resp) \<and>
            (\<exists>p. io_log (snd (fetch_resource L E url ip w))
                   = io_log w @ [HttpGet url, WroteEntry p]))"
  using fetch_resource_render [OF assms, of ip] fetch_resource_static [OF assms, of ip]
  by (simp only: requires_playwright_first_block) blast

theorem render_fallback_decision_witness:
  "load_from_cache stub_lib ''https://example.com/'' None (fs empty_world) = Inr None \<and>
   http_get stub_env (clock empty_world) ''https://example.com/'' = Some home_response \<and>
   first_noscript_block_has_javascript (resp_content home_response) \<and>
   status_code home_response = 200 \<and>
   playwright stub_env (Suc (clock empty_world)) ''https://example.com/''
     = Rendered ''<html>rendered</html>'' \<and>
   fetch_resource stub_lib stub_env ''https://example.com/'' None empty_world
     = (Inr (Some home_resource), after_home) \<and>
   wr_content home_resource = ''<html>rendered</html>'' \<and>
   io_log after_home
     = [HttpGet ''https://example.com/'', Render ''https://example.com/'',
        WroteEntry home_path] \<and>
   load_from_cache stub_lib ''https://example.com/gone'' None (fs empty_world) = Inr None \<and>
   http_get stub_env (clock empty_world) ''https://example.com/gone'' = Some gone_response \<and>
   first_noscript_block_has_javascript (resp_content gone_response) \<and>
   status_code gone_response = 404 \<and>
   fst (fetch_resource stub_lib stub_env ''https://example.com/gone'' None empty_world)
     = Inr (Some gone_resource) \<and>
   wr_content gone_resource = resp_content gone_response \<and>
   io_log (snd (fetch_resource stub_lib stub_env ''https://example.com/gone'' None
                  empty_world))
     = [HttpGet ''https://example.com/gone'', WroteEntry gone_path]"
proof -
  have miss1: "load_from_cache stub_lib ''https://example.com/'' None (fs empty_world) = Inr None"
    by code_simp
  have resp1: "http_get stub_env (clock empty_world) ''https://example.com/'' = Some home_response"
    by code_simp
  have trig1: "first_noscript_block_has_javascript (resp_content home_response)"
    by code_simp
  have st1: "status_code home_response = 200"
    by (simp add: home_response_def)
  have pw: "playwright stub_env (Suc (clock empty_world)) ''https://example.com/''
              = Rendered ''<html>rendered</html>''"
    by (simp add: stub_env_def)
  have "fst (fetch_resource stub_lib stub_env ''https://example.com/'' None empty_world)
          = Inr (Some home_resource)"
    by code_simp
  then have first1: "fetch_resource stub_lib stub_env ''https://example.com/'' None empty_world
     = (Inr (Some home_resource), after_home)"
    by (simp add: after_home_def prod_eq_iff)
  have c1: "wr_content home_resource = ''<html>rendered</html>''"
    by (simp add: home_resource_def)
  have log1: "io_log after_home
     = [HttpGet ''https://example.com/'', Render ''https://example.com/'',
        WroteEntry home_path]"
    unfolding after_home_def by code_simp
  have miss2: "load_from_cache stub_lib ''https://example.com/gone'' None (fs empty_world) = Inr None"
    by code_simp
  have resp2: "http_get stub_env (clock empty_world) ''https://example.com/gone'' = Some gone_response"
    by code_simp
  have trig2: "first_noscript_block_has_javascript (resp_content gone_response)"
    by code_simp
  have st2: "status_code gone_response = 404"
    by (simp add: gone_response_def)
  have first2: "fst (fetch_resource stub_lib stub_env ''https://example.com/gone'' None empty_world)
     = Inr (Some gone_resource)"
    by code_simp
  have c2: "wr_content gone_resource = resp_content gone_response"
    by (simp add: gone_resource_def gone_response_def)
  have log2: "io_log (snd (fetch_resource stub_lib stub_env ''https://example.com/gone'' None
                  empty_world))
     = [HttpGet ''https://example.com/gone'', WroteEntry gone_path]"
    by code_simp
  show ?thesis
    using miss1 resp1 trig1 st1 pw first1 c1 log1 miss2 resp2 trig2 st2 first2 c2 log2
      render_fallback_decision [OF miss1 resp1, of None]
      render_fallback_decision [OF miss2 resp2, of None]
    by simp
qed

text \<open>
  The claim as stated fails: this body has a noscript block whose region contains the
  token (the second one), the status is 200, and the static body is kept with no
  render call.
\<close>

theorem render_not_triggered_by_later_block:
  "some_noscript_block_has_javascript two_blocks_body \<and>
   http_get stub_env (clock empty_world) ''https://example.com/two'' = Some two_response \<and>
   resp_content two_response = two_blocks_body \<and>
   status_code two_response = 200 \<and>
   fetch_resource stub_lib stub_env ''https://example.com/two'' None empty_world
     = (Inr (Some two_resource), after_two) \<and>
   wr_content two_resource = two_blocks_body \<and>
   io_log after_two = [HttpGet ''https://example.com/two'', WroteEntry two_path]"
proof -
  have a: "some_noscript_block_has_javascript two_blocks_body"
    by code_simp
  have b: "http_get stub_env (clock empty_world) ''https://example.com/two'' = Some two_response"
    by code_simp
  have c: "io_log after_two = [HttpGet ''https://example.com/two'', WroteEntry two_path]"
    unfolding after_two_def by code_simp
  show ?thesis
    using a b c first_fetch_two by (simp add: two_response_def two_resource_def)
qed

section \<open>The pipeline: pacing and the completion index\<close>

lemma config_attr_undeclared:
  "config_attr C ''http_delay'' = Inl AttributeError"
  "config_attr C ''http_delay_max'' = Inl AttributeError"
  by (simp_all add: config_attr_def)

lemma get_resources_raises:
  "get_resources L C E domain paths w = (Inl AttributeError, w)"
  by (simp add: get_resources_def config_attr_undeclared)

text \<open>
  Claim C1. The loop of \<open>get_resources\<close> sleeps the smaller of the ceiling and the
  delay of the domain after each dispatch, as the claim says and as its comment on
  extreme crawl delays intends. But the default delay and the ceiling are read from
  \<open>CONFIG.http_delay\<close> and \<open>CONFIG.http_delay_max\<close>, and the configuration class
  declares neither. For every configuration that loads, the first statement of
  \<open>get_resources\<close> raises \<open>AttributeError\<close>: the host is not probed, robots.txt is not
  read, nothing is dispatched, and no delay is slept. So it is for a live host whose
  robots.txt declares a crawl delay of 999999.
\<close>

theorem get_resources_raises_before_any_delay:
  "config_attr C ''http_delay'' = Inl AttributeError \<and>
   config_attr C ''http_delay_max'' = Inl AttributeError \<and>
   get_resources L C E domain paths w = (Inl AttributeError, w) \<and>
   host_probe stub_env 0 ''example.com'' = Some (''https'', ''93.184.216.34'') \<and>
   robots_parse stub_env robots_body = Inr \<lparr>crawl_delay = Some 999999, site_maps = None\<rparr> \<and>
   get_resources stub_lib default_config stub_env ''example.com'' None empty_world
     = (Inl AttributeError, empty_world) \<and>
   slept empty_world = [] \<and> io_log empty_world = []"
  by (simp add: config_attr_undeclared get_resources_raises stub_env_def
      stub_robots_parse_def empty_world_def)

lemma save_domain_content_empty: "save_domain_content L [] w = Inr w"
  by (simp add: save_domain_content_def)

text \<open>
  Claim C9, as amended. \<open>save_domain_content\<close> is the step with which
  \<open>get_resources\<close> ends, on the list of the resources it has yielded. For a list that
  is not empty it writes the completion index, the file \<open>content.json\<close> in the
  directory of the cache entry of the first resource: the index lists the summary of
  every resource of the list, in order, no other file changes, and the write is the
  only operation. (It raises where the URL of the first resource does not parse.) For
  the empty list it returns at once and writes nothing.
\<close>

theorem completion_index_written_iff_pages:
  "save_domain_content L [] w = Inr w \<and>
   (get_cache_path L (wr_url page0) None = Inr p \<longrightarrow>
      save_domain_content L (page0 # rest) w
        = Inr (w\<lparr>fs := (fs w)(path_join (parent p) ''content.json''
                               \<mapsto> JArr (map (page_summary L) (page0 # rest))),
                  io_log := io_log w @ [WroteIndex (path_join (parent p) ''content.json'')]\<rparr>)) \<and>
   (get_cache_path L (wr_url page0) None = Inl e \<longrightarrow>
      save_domain_content L (page0 # rest) w = Inl e)"
  by (simp add: save_domain_content_def Let_def)

theorem completion_index_written_iff_pages_witness:
  "get_cache_path stub_lib (wr_url two_resource) None = Inr two_path \<and>
   path_join (parent two_path) ''content.json'' = index_path \<and>
   fs after_two index_path = None \<and>
   save_domain_content stub_lib [two_resource] after_two
     = Inr (after_two\<lparr>fs := (fs after_two)(index_path
                               \<mapsto> JArr [page_summary stub_lib two_resource]),
                       io_log := io_log after_two @ [WroteIndex index_path]\<rparr>) \<and>
   page_summary stub_lib two_resource
     = JObj [(''url'', JStr ''https://example.com/two''), (''status'', JInt 200),
             (''hash'', JStr (stub_hexdigest two_blocks_body)), (''size'', JInt 53),
             (''content_type'', JStr ''text/plain''), (''ip_address'', JStr []),
             (''date_retrieved'', JStr ''1+0''), (''date_modified'', JNull)] \<and>
   get_cache_path (stub_lib\<lparr>urlparse := (\<lambda>url. None)\<rparr>) (wr_url two_resource) None
     = Inl ValueError \<and>
   save_domain_content (stub_lib\<lparr>urlparse := (\<lambda>url. None)\<rparr>) [two_resource] after_two
     = Inl ValueError"
proof -
  have loc: "get_cache_path stub_lib (wr_url two_resource) None = Inr two_path"
    by code_simp
  have idx: "path_join (parent two_path) ''content.json'' = index_path"
    by code_simp
  have none: "fs after_two index_path = None"
    unfolding after_two_def by code_simp
  have summary: "page_summary stub_lib two_resource
     = JObj [(''url'', JStr ''https://example.com/two''), (''status'', JInt 200),
             (''hash'', JStr (stub_hexdigest two_blocks_body)), (''size'', JInt 53),
             (''content_type'', JStr ''text/plain''), (''ip_address'', JStr []),
             (''date_retrieved'', JStr ''1+0''), (''date_modified'', JNull)]"
    by code_simp
  have bad: "get_cache_path (stub_lib\<lparr>urlparse := (\<lambda>url. None)\<rparr>) (wr_url two_resource)
               None = Inl ValueError"
    by (simp add: get_cache_path_def)
  show ?thesis
    using loc idx none summary bad
      completion_index_written_iff_pages
        [of stub_lib after_two two_resource two_path "[]" ValueError]
      completion_index_written_iff_pages
        [of "stub_lib\<lparr>urlparse := (\<lambda>url. None)\<rparr>" after_two two_resource two_path "[]"
            ValueError]
    by simp
qed

text \<open>
  The claim as stated fails. On the empty list of resources, what \<open>get_resources\<close>
  has to pass on when no dispatched fetch returned a resource, \<open>save_domain_content\<close>
  writes no index: the world is as before, with no \<open>content.json\<close> in the directory
  of the domain. And \<open>get_resources\<close> as it stands writes no index for the live host
  \<open>example.com\<close> either, since it raises at its first statement.
\<close>

theorem no_index_for_empty_pages:
  "save_domain_content stub_lib [] after_two = Inr after_two \<and>
   fs after_two index_path = None \<and>
   filter is_index_write (io_log after_two) = [] \<and>
   host_probe stub_env 0 ''example.com'' = Some (''https'', ''93.184.216.34'') \<and>
   get_resources stub_lib default_config stub_env ''example.com'' None after_two
     = (Inl AttributeError, after_two)"
proof -
  have none: "fs after_two index_path = None"
    unfolding after_two_def by code_simp
  have log: "filter is_index_write (io_log after_two) = []"
    unfolding after_two_def by code_simp
  show ?thesis
    using none log
    by (simp add: save_domain_content_empty get_resources_raises stub_env_def)
qed


section \<open>Progress toward the target\<close>











section \<open>The domain generator never raises, and what it returns\<close>































end
